theory Spec2Isabelle
  imports Complex_Main
begin

section \<open>The host scene as the add-on sees it\<close>

text \<open>
  The add-on (\<^verbatim>\<open>src/__init__.py\<close>) drives Blender through \<^verbatim>\<open>bpy\<close>. Only the part of
  the host that the operators read or write is modelled:
  \<^item> \<^verbatim>\<open>obj.type\<close>, one of the tags the code compares against, or another one;
  \<^item> the selection bit (\<^verbatim>\<open>obj.select_set\<close>), which \<^verbatim>\<open>bpy.ops.object.delete()\<close> reads;
  \<^item> \<^verbatim>\<open>obj.animation_data\<close> (\<^verbatim>\<open>None\<close> or a block, here named by a string);
  \<^item> \<^verbatim>\<open>obj.data\<close>: \<^verbatim>\<open>None\<close>, a datablock without a \<^verbatim>\<open>materials\<close> attribute, or one
    with a list of material slots;
  \<^item> \<^verbatim>\<open>obj.rotation_euler\<close> and \<^verbatim>\<open>obj.scale\<close>. The code only assigns the literals
    \<^verbatim>\<open>3.14159\<close> and \<^verbatim>\<open>0.01\<close> to them and never computes with them, so they are kept
    as the numbers the literals denote;
  \<^item> membership in the current view layer (\<^verbatim>\<open>obj.name in bpy.context.view_layer.objects\<close>).

  \<^verbatim>\<open>bpy.context.scene.objects\<close> is a collection keyed by object name, and every
  existence test of the code is \<^verbatim>\<open>obj.name in bpy.context.scene.objects\<close>. Blender
  keeps object names unique and no operator modelled here renames or creates an
  object after the batch is computed, so a Python handle to an object is its name.
  The collection is the map \<open>objects\<close>; \<open>scene_order\<close> is the order in which the
  host enumerates names when the collection is iterated.
  A handle is truthy (the \<^verbatim>\<open>obj and ...\<close> of the filters), and the handle of a
  deleted object still answers the existence test, with \<^verbatim>\<open>False\<close>: this is the reading
  of the host that the filters themselves rely on.
\<close>

datatype object_type = MESH | LIGHT | CAMERA | CURVE | ARMATURE | EMPTY | OTHER

type_synonym handle = string

datatype datablock = Without_materials | Materials "string list"

record scene_object =
  otype :: object_type
  select :: bool
  animation_data :: "string option"
  data :: "datablock option"
  rotation_euler :: "real \<times> real \<times> real"
  scale :: "real \<times> real \<times> real"
  in_view_layer :: bool

text \<open>
  Calls into the host that change it, in the order they are issued, and the records
  written through \<^verbatim>\<open>logger\<close> and \<^verbatim>\<open>self.report\<close>. A message is named by its text in
  the source; the numbers interpolated into it are its arguments.
\<close>

datatype call =
    Select_all_DESELECT
  | Select_set handle bool
  | Set_active handle
  | Set_rotation_euler_x handle real
  | Set_scale handle "real \<times> real \<times> real"
  | Object_delete
  | Animation_data_clear handle
  | Materials_clear handle

datatype level = INFO | WARNING | ERROR

datatype message =
    Initiating_import
  | Invalid_file_path
  | Python_executable_not_found
  | Executing_conversion_script
  | Script_stdout string
  | Script_stderr string
  | Script_failed int
  | Failed_to_execute_script
  | Fbx_not_found
  | Importing_generated_fbx
  | Fbx_imported
  | Identified_imported nat
  | Applied_rotation
  | Applied_scale
  | Deleting_objects nat object_type
  | Keeping_objects nat object_type
  | Armatures_will_be_kept
  | Cleared_animation_data nat
  | Cleared_material_slots nat
  | Successfully_imported
  | Fbx_import_failed
  | Intermediate_fbx
  | No_objects_match
  | Exporting_objects nat
  | Fbx_export_completed
  | Fbx_export_failed
  | Running_export_script
  | Export_script_failed int
  | Error_running_export_script
  | Export_completed
  | Exported_successfully
  | Traceback
  | No_filepath
  | Initiating_export

datatype temp_file = Import_script | Import_fbx | Export_fbx | Export_script

record host =
  scene_order :: "handle list"
  objects :: "handle \<rightharpoonup> scene_object"
  active :: "handle option"
  calls :: "call list"
  logger :: "(level \<times> message) list"
  reports :: "(level \<times> message) list"
  files :: "temp_file set"

definition called :: "call \<Rightarrow> host \<Rightarrow> host" where
  "called c s = s\<lparr>calls := calls s @ [c]\<rparr>"

definition logger_info :: "message \<Rightarrow> host \<Rightarrow> host" where
  "logger_info m s = s\<lparr>logger := logger s @ [(INFO, m)]\<rparr>"

definition logger_warning :: "message \<Rightarrow> host \<Rightarrow> host" where
  "logger_warning m s = s\<lparr>logger := logger s @ [(WARNING, m)]\<rparr>"

definition logger_error :: "message \<Rightarrow> host \<Rightarrow> host" where
  "logger_error m s = s\<lparr>logger := logger s @ [(ERROR, m)]\<rparr>"

definition report :: "level \<Rightarrow> message \<Rightarrow> host \<Rightarrow> host" where
  "report l m s = s\<lparr>reports := reports s @ [(l, m)]\<rparr>"

text \<open>\<^verbatim>\<open>obj.name in bpy.context.scene.objects\<close>\<close>

definition in_scene :: "host \<Rightarrow> handle \<Rightarrow> bool" where
  "in_scene s n = (objects s n \<noteq> None)"

text \<open>
  A write through a handle. Every write of the code goes to an object that is in the
  scene (the batch has just been read from the scene, and the filters test
  \<open>in_scene\<close> first); on a name that is not in the scene the model changes nothing.
\<close>

definition modify :: "handle \<Rightarrow> (scene_object \<Rightarrow> scene_object) \<Rightarrow> host \<Rightarrow> host" where
  "modify n f s = s\<lparr>objects := (objects s)(n := map_option f (objects s n))\<rparr>"

text \<open>\<^verbatim>\<open>bpy.ops.object.select_all(action='DESELECT')\<close>\<close>

definition select_all_DESELECT :: "host \<Rightarrow> host" where
  "select_all_DESELECT s =
     called Select_all_DESELECT
       (s\<lparr>objects := (\<lambda>n. map_option (\<lambda>ob. ob\<lparr>select := False\<rparr>) (objects s n))\<rparr>)"

text \<open>\<^verbatim>\<open>obj.select_set(b)\<close>\<close>

definition select_set :: "handle \<Rightarrow> bool \<Rightarrow> host \<Rightarrow> host" where
  "select_set n b s = called (Select_set n b) (modify n (\<lambda>ob. ob\<lparr>select := b\<rparr>) s)"

text \<open>\<^verbatim>\<open>bpy.context.view_layer.objects.active = obj\<close>\<close>

definition set_active :: "handle \<Rightarrow> host \<Rightarrow> host" where
  "set_active n s = called (Set_active n) (s\<lparr>active := Some n\<rparr>)"

text \<open>\<^verbatim>\<open>obj.rotation_euler.x = x\<close>\<close>

definition set_rotation_euler_x :: "handle \<Rightarrow> real \<Rightarrow> host \<Rightarrow> host" where
  "set_rotation_euler_x n x s =
     called (Set_rotation_euler_x n x)
       (modify n (\<lambda>ob. ob\<lparr>rotation_euler := (x, snd (rotation_euler ob))\<rparr>) s)"

text \<open>\<^verbatim>\<open>obj.scale = v\<close>\<close>

definition set_scale :: "handle \<Rightarrow> real \<times> real \<times> real \<Rightarrow> host \<Rightarrow> host" where
  "set_scale n v s = called (Set_scale n v) (modify n (\<lambda>ob. ob\<lparr>scale := v\<rparr>) s)"

text \<open>
  \<^verbatim>\<open>bpy.ops.object.delete()\<close>: the selected objects leave the scene; an active object
  that is deleted is no longer active.
\<close>

definition is_selected :: "host \<Rightarrow> handle \<Rightarrow> bool" where
  "is_selected s n = (case objects s n of None \<Rightarrow> False | Some ob \<Rightarrow> select ob)"

definition object_delete :: "host \<Rightarrow> host" where
  "object_delete s =
     called Object_delete
       (s\<lparr>objects := (\<lambda>n. if is_selected s n then None else objects s n),
          active := (case active s of
                       None \<Rightarrow> None
                     | Some a \<Rightarrow> if is_selected s a then None else Some a)\<rparr>)"

text \<open>
  Iterating \<^verbatim>\<open>bpy.context.scene.objects\<close>, and \<^verbatim>\<open>bpy.context.selected_objects\<close>.
\<close>

definition scene_objects :: "host \<Rightarrow> handle list" where
  "scene_objects s = remdups (filter (in_scene s) (scene_order s))"

definition selected_objects :: "host \<Rightarrow> handle list" where
  "selected_objects s = filter (is_selected s) (scene_objects s)"

text \<open>\<^verbatim>\<open>obj.name in bpy.context.view_layer.objects\<close>\<close>

definition in_view :: "host \<Rightarrow> handle \<Rightarrow> bool" where
  "in_view s n = (case objects s n of None \<Rightarrow> False | Some ob \<Rightarrow> in_view_layer ob)"

text \<open>\<^verbatim>\<open>obj.animation_data_clear()\<close>\<close>

definition animation_data_clear :: "handle \<Rightarrow> host \<Rightarrow> host" where
  "animation_data_clear n s =
     called (Animation_data_clear n) (modify n (\<lambda>ob. ob\<lparr>animation_data := None\<rparr>) s)"

text \<open>\<^verbatim>\<open>obj.data.materials.clear()\<close>\<close>

fun clear_slots :: "datablock \<Rightarrow> datablock" where
  "clear_slots (Materials ms) = Materials []"
| "clear_slots Without_materials = Without_materials"

definition materials_clear :: "handle \<Rightarrow> host \<Rightarrow> host" where
  "materials_clear n s =
     called (Materials_clear n)
       (modify n (\<lambda>ob. ob\<lparr>data := map_option clear_slots (data ob)\<rparr>) s)"

section \<open>Python sets of handles\<close>

text \<open>
  A Python \<^verbatim>\<open>set\<close> of handles is a list without repetition; the order of the list is
  the order in which Python happens to enumerate the set, which the language leaves
  open. \<^verbatim>\<open>len\<close> is \<open>length\<close>, truth of a set is \<open>\<noteq> []\<close>.
\<close>

definition set_add :: "handle \<Rightarrow> handle list \<Rightarrow> handle list" where
  "set_add n xs = (if n \<in> set xs then xs else xs @ [n])"

definition set_update :: "handle list \<Rightarrow> handle list \<Rightarrow> handle list" where
  "set_update xs ys = fold set_add ys xs"

definition set_minus :: "handle list \<Rightarrow> handle list \<Rightarrow> handle list" where
  "set_minus xs ys = filter (\<lambda>n. n \<notin> set ys) xs"

section \<open>The import operator's configuration\<close>

record import_op =
  import_models :: bool
  import_lights :: bool
  import_cameras :: bool
  import_splines :: bool
  import_animations :: bool
  import_materials :: bool
  import_armatures :: bool
  apply_rotation :: bool
  apply_scale :: bool

section \<open>The filters of \<^verbatim>\<open>ImportMax\<close>\<close>

text \<open>
  \<^verbatim>\<open>_filter_objects_by_type(objects_to_check, obj_type, keep)\<close>: the loop selects and
  collects the objects of the type that are in the scene; with \<^verbatim>\<open>keep=False\<close> and a
  non-empty collection they are deleted through the host's delete operator and the
  function returns at once.
\<close>

definition has_type :: "host \<Rightarrow> handle \<Rightarrow> object_type \<Rightarrow> bool" where
  "has_type s n t = (case objects s n of None \<Rightarrow> False | Some ob \<Rightarrow> otype ob = t)"

definition target_step :: "object_type \<Rightarrow> handle \<Rightarrow> handle list \<times> host \<Rightarrow> handle list \<times> host" where
  "target_step t n acc =
     (if in_scene (snd acc) n \<and> has_type (snd acc) n t
      then (set_add n (fst acc), select_set n True (snd acc))
      else acc)"

definition filter_objects_by_type ::
  "handle list \<Rightarrow> object_type \<Rightarrow> bool \<Rightarrow> host \<Rightarrow> handle list \<times> host" where
  "filter_objects_by_type objects_to_check obj_type keep s =
     (let s1 = select_all_DESELECT s;
          (targeted_objects, s2) = fold (target_step obj_type) objects_to_check ([], s1)
      in if \<not> keep \<and> targeted_objects \<noteq> [] then
           (targeted_objects,
            object_delete (logger_info (Deleting_objects (length targeted_objects) obj_type) s2))
         else
           (let s3 = (if keep \<and> targeted_objects \<noteq> []
                      then logger_info (Keeping_objects (length targeted_objects) obj_type) s2
                      else s2)
            in (if \<not> keep then targeted_objects else [], select_all_DESELECT s3)))"

text \<open>\<^verbatim>\<open>_filter_animations_from_objects(objects_to_check, keep)\<close>\<close>

definition has_animation_data :: "host \<Rightarrow> handle \<Rightarrow> bool" where
  "has_animation_data s n =
     (case objects s n of None \<Rightarrow> False | Some ob \<Rightarrow> animation_data ob \<noteq> None)"

definition animation_step :: "handle \<Rightarrow> nat \<times> host \<Rightarrow> nat \<times> host" where
  "animation_step n acc =
     (if in_scene (snd acc) n \<and> has_animation_data (snd acc) n
      then (fst acc + 1, animation_data_clear n (snd acc))
      else acc)"

definition filter_animations_from_objects :: "handle list \<Rightarrow> bool \<Rightarrow> host \<Rightarrow> host" where
  "filter_animations_from_objects objects_to_check keep s =
     (if \<not> keep then
        (let (cleared_count, s1) = fold animation_step objects_to_check (0, s)
         in if cleared_count > 0 then logger_info (Cleared_animation_data cleared_count) s1
            else s1)
      else s)"

text \<open>
  \<^verbatim>\<open>_filter_materials_from_objects(objects_to_check, keep)\<close>. The tests are, in the
  source's order: the object is in the scene, it has a datablock, the datablock has a
  \<^verbatim>\<open>materials\<close> attribute, and the slot list is not empty.
\<close>

definition has_materials_attr :: "host \<Rightarrow> handle \<Rightarrow> bool" where
  "has_materials_attr s n =
     (case objects s n of
        None \<Rightarrow> False
      | Some ob \<Rightarrow> (case data ob of
                      None \<Rightarrow> False
                    | Some Without_materials \<Rightarrow> False
                    | Some (Materials ms) \<Rightarrow> True))"

definition has_slots :: "host \<Rightarrow> handle \<Rightarrow> bool" where
  "has_slots s n =
     (case objects s n of
        None \<Rightarrow> False
      | Some ob \<Rightarrow> (case data ob of
                      None \<Rightarrow> False
                    | Some Without_materials \<Rightarrow> False
                    | Some (Materials ms) \<Rightarrow> ms \<noteq> []))"

definition materials_step :: "handle \<Rightarrow> nat \<times> host \<Rightarrow> nat \<times> host" where
  "materials_step n acc =
     (if in_scene (snd acc) n \<and> has_materials_attr (snd acc) n
      then (if has_slots (snd acc) n
            then (fst acc + 1, materials_clear n (snd acc))
            else acc)
      else acc)"

definition filter_materials_from_objects :: "handle list \<Rightarrow> bool \<Rightarrow> host \<Rightarrow> host" where
  "filter_materials_from_objects objects_to_check keep s =
     (if \<not> keep then
        (let (cleared_count, s1) = fold materials_step objects_to_check (0, s)
         in if cleared_count > 0 then logger_info (Cleared_material_slots cleared_count) s1
            else s1)
      else s)"

section \<open>The post-processing of an import batch\<close>

text \<open>
  What \<^verbatim>\<open>ImportMax.execute\<close> does with a non-empty \<^verbatim>\<open>imported_objects\<close>. First the
  batch is selected and its first object made active.
\<close>

definition select_imported_step :: "handle \<Rightarrow> bool \<times> host \<Rightarrow> bool \<times> host" where
  "select_imported_step n acc =
     (let s1 = select_set n True (snd acc)
      in if \<not> fst acc then (True, set_active n s1) else (fst acc, s1))"

text \<open>
  The corrective transform: \<^verbatim>\<open>obj.rotation_euler.x = 3.14159  # 180 degrees\<close> and
  \<^verbatim>\<open>obj.scale = (0.01, 0.01, 0.01)\<close>, each in its own loop over the whole batch.
\<close>

definition rotation_180 :: real where
  "rotation_180 = 3.14159"

definition scale_001 :: "real \<times> real \<times> real" where
  "scale_001 = (0.01, 0.01, 0.01)"

definition apply_transforms :: "import_op \<Rightarrow> handle list \<Rightarrow> host \<Rightarrow> host" where
  "apply_transforms op imported_objects s =
     (let s1 = (if apply_rotation op
                then logger_info Applied_rotation
                       (fold (\<lambda>n. set_rotation_euler_x n rotation_180) imported_objects s)
                else s);
          s2 = (if apply_scale op
                then logger_info Applied_scale
                       (fold (\<lambda>n. set_scale n scale_001) imported_objects s1)
                else s1)
      in s2)"

text \<open>
  One statement
  \<^verbatim>\<open>processed_for_deletion.update(self._filter_objects_by_type(imported_objects, T, keep=False))\<close>
  on the pair of \<^verbatim>\<open>processed_for_deletion\<close> and the host.
\<close>

definition delete_type :: "object_type \<Rightarrow> handle list \<Rightarrow> handle list \<times> host \<Rightarrow> handle list \<times> host" where
  "delete_type t imported_objects acc =
     (let (deleted, s1) = filter_objects_by_type imported_objects t False (snd acc)
      in (set_update (fst acc) deleted, s1))"

text \<open>
  The asset filtering. First the five deletions by type, each behind its flag
  (\<^verbatim>\<open>processed_for_deletion\<close> starts empty); where armatures are kept while models
  are off and animations on, the source only writes a log record.
\<close>

definition delete_by_flags :: "import_op \<Rightarrow> handle list \<Rightarrow> host \<Rightarrow> handle list \<times> host" where
  "delete_by_flags op imported_objects s =
     (let acc0 = ([], s);
          acc1 = (if \<not> import_models op then delete_type MESH imported_objects acc0 else acc0);
          acc2 = (if \<not> import_lights op then delete_type LIGHT imported_objects acc1 else acc1);
          acc3 = (if \<not> import_cameras op then delete_type CAMERA imported_objects acc2 else acc2);
          acc4 = (if \<not> import_splines op then delete_type CURVE imported_objects acc3 else acc3)
      in if \<not> import_armatures op then delete_type ARMATURE imported_objects acc4
         else if \<not> import_models op \<and> import_animations op
              then (fst acc4, logger_info Armatures_will_be_kept (snd acc4))
              else acc4)"

text \<open>
  Then the stripping of animation data and material slots from what remains. The
  result is \<^verbatim>\<open>processed_for_deletion\<close> and \<^verbatim>\<open>remaining_after_deletion\<close> with the host.
\<close>

definition asset_filtering ::
  "import_op \<Rightarrow> handle list \<Rightarrow> host \<Rightarrow> (handle list \<times> handle list) \<times> host" where
  "asset_filtering op imported_objects s =
     (let (processed_for_deletion, s5) = delete_by_flags op imported_objects s;
          remaining_after_deletion = set_minus imported_objects processed_for_deletion;
          s6 = (if \<not> import_animations op \<and> remaining_after_deletion \<noteq> []
                then filter_animations_from_objects remaining_after_deletion False s5
                else s5);
          s7 = (if \<not> import_materials op \<and> remaining_after_deletion \<noteq> []
                then filter_materials_from_objects remaining_after_deletion False s6
                else s6)
      in ((processed_for_deletion, remaining_after_deletion), s7))"

text \<open>
  The transform stage (selection, rotation, scale, deselection) and the whole
  pipeline: the body of \<^verbatim>\<open>if imported_objects:\<close>. The pipeline returns the removed
  objects and the survivors with the host.
\<close>

definition transform_stage :: "import_op \<Rightarrow> handle list \<Rightarrow> host \<Rightarrow> host" where
  "transform_stage op imported_objects s =
     (let s1 = select_all_DESELECT s;
          (active_set, s2) = fold select_imported_step imported_objects (False, s1);
          s3 = apply_transforms op imported_objects s2
      in select_all_DESELECT s3)"

definition filter_pipeline ::
  "import_op \<Rightarrow> handle list \<Rightarrow> host \<Rightarrow> (handle list \<times> handle list) \<times> host" where
  "filter_pipeline op imported_objects s =
     asset_filtering op imported_objects (transform_stage op imported_objects s)"

definition removed :: "(handle list \<times> handle list) \<times> host \<Rightarrow> handle list" where
  "removed r = fst (fst r)"

definition survivors :: "(handle list \<times> handle list) \<times> host \<Rightarrow> handle list" where
  "survivors r = snd (fst r)"

section \<open>\<^verbatim>\<open>ImportMax.execute\<close>\<close>

text \<open>
  What the operator cannot decide by itself comes from the environment:
  whether \<^verbatim>\<open>self.filepath\<close> is non-empty and ends in \<^verbatim>\<open>.max\<close>, whether the configured
  interpreter exists, what \<^verbatim>\<open>subprocess.run\<close> does (it raises, or it returns a code
  and the stripped output streams, the conversion having written the FBX file or not),
  and what \<^verbatim>\<open>bpy.ops.import_scene.fbx\<close> does to the scene (\<open>None\<close>: it raises). The
  host calls of the model do not raise.
\<close>

datatype status = FINISHED | CANCELLED

datatype run_result = Run_raises | Run_returns int string string bool

record import_env =
  valid_max_path :: bool
  max_python_found :: bool
  run_conversion :: run_result
  import_scene_fbx :: "bool \<Rightarrow> host \<Rightarrow> host option"

definition write_file :: "temp_file \<Rightarrow> host \<Rightarrow> host" where
  "write_file f s = s\<lparr>files := insert f (files s)\<rparr>"

text \<open>\<^verbatim>\<open>try: os.remove(path)\<close> \<^verbatim>\<open>except: pass\<close>\<close>

definition os_remove :: "temp_file \<Rightarrow> host \<Rightarrow> host" where
  "os_remove f s = s\<lparr>files := files s - {f}\<rparr>"

text \<open>
  \<^verbatim>\<open>{obj for obj in bpy.context.scene.objects if obj.name not in existing_object_names}\<close>
\<close>

definition scene_diff :: "handle list \<Rightarrow> host \<Rightarrow> handle list" where
  "scene_diff existing_object_names s =
     filter (\<lambda>n. n \<notin> set existing_object_names) (scene_objects s)"

text \<open>The part of \<^verbatim>\<open>execute\<close> after a successful FBX import.\<close>

definition finish_import :: "import_op \<Rightarrow> handle list \<Rightarrow> host \<Rightarrow> status \<times> host" where
  "finish_import op existing_object_names s =
     (let s1 = logger_info Fbx_imported s;
          imported_objects = scene_diff existing_object_names s1;
          s2 = logger_info (Identified_imported (length imported_objects)) s1;
          s3 = (if imported_objects \<noteq> []
                then snd (filter_pipeline op imported_objects s2)
                else s2);
          s4 = select_all_DESELECT s3;
          s5 = os_remove Import_fbx s4
      in (FINISHED, report INFO Successfully_imported s5))"

text \<open>
  The first \<^verbatim>\<open>try\<close> block and the test that follows it: the generated script is
  written to the cache directory and run. \<open>Inl\<close> is an early return of the operator,
  \<open>Inr\<close> the host when the FBX file is there to be imported.
\<close>

definition convert_to_fbx :: "import_env \<Rightarrow> host \<Rightarrow> (status \<times> host) + host" where
  "convert_to_fbx env s =
     (let s1 = write_file Import_script s;
          s2 = logger_info Executing_conversion_script s1
      in case run_conversion env of
           Run_raises \<Rightarrow>
             Inl (CANCELLED,
                  report ERROR Failed_to_execute_script
                    (logger_error Failed_to_execute_script s2))
         | Run_returns returncode s_out s_err fbx_written \<Rightarrow>
             (let s3 = (if fbx_written then write_file Import_fbx s2 else s2);
                  s4 = (if s_out \<noteq> [] then logger_info (Script_stdout s_out) s3 else s3);
                  s5 = (if s_err \<noteq> [] then logger_error (Script_stderr s_err) s4 else s4)
              in if returncode \<noteq> 0 then
                   Inl (CANCELLED,
                        report ERROR (Script_failed returncode)
                          (logger_error (Script_failed returncode) s5))
                 else if Import_fbx \<notin> files s5 then
                   Inl (CANCELLED, report ERROR Fbx_not_found s5)
                 else Inr s5))"

text \<open>
  The second \<^verbatim>\<open>try\<close> block: the scene is deselected, the names in it are remembered,
  and the FBX file is imported; an exception of the importer ends the operator in its
  \<^verbatim>\<open>except\<close> clause.
\<close>

definition import_fbx :: "import_op \<Rightarrow> import_env \<Rightarrow> host \<Rightarrow> status \<times> host" where
  "import_fbx op env s =
     (let s1 = logger_info Importing_generated_fbx s;
          s2 = select_all_DESELECT s1;
          existing_object_names = scene_objects s2
      in case import_scene_fbx env (import_animations op) s2 of
           None \<Rightarrow>
             (CANCELLED, report ERROR Fbx_import_failed (logger_error Fbx_import_failed s2))
         | Some s3 \<Rightarrow> finish_import op existing_object_names s3)"

definition execute_import :: "import_op \<Rightarrow> import_env \<Rightarrow> host \<Rightarrow> status \<times> host" where
  "execute_import op env s =
     (let s0 = logger_info Initiating_import s
      in if \<not> valid_max_path env then (CANCELLED, report ERROR Invalid_file_path s0)
         else if \<not> max_python_found env then
           (CANCELLED,
            report ERROR Python_executable_not_found
              (logger_error Python_executable_not_found s0))
         else
           (case convert_to_fbx env s0 of
              Inl r \<Rightarrow> r
            | Inr s1 \<Rightarrow> import_fbx op env s1))"

section \<open>\<^verbatim>\<open>ExportMax.export_max\<close>\<close>

record export_op =
  export_models :: bool
  export_lights :: bool
  export_cameras :: bool
  export_splines :: bool
  export_animations :: bool
  use_selection :: bool

text \<open>The \<^verbatim>\<open>if\<close>/\<^verbatim>\<open>elif\<close> chain that sets \<^verbatim>\<open>should_select\<close>.\<close>

definition should_select :: "export_op \<Rightarrow> object_type \<Rightarrow> bool" where
  "should_select op t =
     (if t = MESH \<and> export_models op then True
      else if t = LIGHT \<and> export_lights op then True
      else if t = CAMERA \<and> export_cameras op then True
      else if t = CURVE \<and> export_splines op then True
      else if t = ARMATURE \<and> (export_models op \<or> export_animations op) then True
      else False)"

text \<open>
  The body of \<^verbatim>\<open>for obj in source_objects\<close>: an object that is not in the view layer
  is skipped by \<^verbatim>\<open>continue\<close>.
\<close>

definition export_select_step :: "export_op \<Rightarrow> handle \<Rightarrow> nat \<times> host \<Rightarrow> nat \<times> host" where
  "export_select_step op n acc =
     (if \<not> in_view (snd acc) n then acc
      else
        (let s1 = select_set n False (snd acc)
         in case objects s1 n of
              None \<Rightarrow> (fst acc, s1)
            | Some ob \<Rightarrow>
                if should_select op (otype ob)
                then (fst acc + 1, select_set n True s1)
                else (fst acc, s1)))"

text \<open>
  The source objects are read after everything has been deselected, as in the
  source: \<^verbatim>\<open>bpy.context.selected_objects\<close> is evaluated at that point.
\<close>

definition source_objects :: "export_op \<Rightarrow> handle list \<Rightarrow> host \<Rightarrow> handle list" where
  "source_objects op original_selection s =
     (if use_selection op
      then (if original_selection \<noteq> [] then selected_objects s else [])
      else scene_objects s)"

definition export_selection :: "export_op \<Rightarrow> host \<Rightarrow> nat \<times> host" where
  "export_selection op s =
     (let original_selection = selected_objects s;
          s1 = select_all_DESELECT s
      in fold (export_select_step op) (source_objects op original_selection s1) (0, s1))"

text \<open>Restoring the selection that was found on entry.\<close>

definition restore_step :: "handle \<Rightarrow> host \<Rightarrow> host" where
  "restore_step n s = (if in_view s n then select_set n True s else s)"

definition restore_selection :: "handle list \<Rightarrow> handle option \<Rightarrow> host \<Rightarrow> host" where
  "restore_selection original_selection original_active s =
     (let s1 = select_all_DESELECT s;
          s2 = (case original_active of
                  None \<Rightarrow> s1
                | Some a \<Rightarrow> if in_view s1 a then set_active a s1 else s1)
      in fold restore_step original_selection s2)"

text \<open>
  The environment of an export: \<^verbatim>\<open>bpy.ops.export_scene.fbx\<close> raises, or returns
  having written a file that is empty or not, or having written none; then the
  interpreter is run on the generated script.
\<close>

datatype fbx_export_result = Export_raises | Export_writes bool | Export_writes_nothing

record export_env =
  filepath_given :: bool
  export_python_found :: bool
  export_scene_fbx :: fbx_export_result
  run_export_script :: run_result

text \<open>
  The body of \<^verbatim>\<open>with tempfile.TemporaryDirectory(...) as temp_dir\<close>. It yields
  \<open>Some status\<close> where the source returns from inside the block and \<open>None\<close> where
  control reaches the end of the block.
\<close>

definition export_body :: "export_op \<Rightarrow> export_env \<Rightarrow> host \<Rightarrow> status option \<times> host" where
  "export_body op env s =
     (let s0 = logger_info Intermediate_fbx s;
          original_selection = selected_objects s0;
          original_active = active s0;
          (export_objects_count, s1) = export_selection op s0
      in if export_objects_count = 0 then
           (Some CANCELLED,
            restore_selection original_selection original_active
              (logger_warning No_objects_match (report WARNING No_objects_match s1)))
         else
           (let s2 = logger_info (Exporting_objects export_objects_count) s1;
                failed = (\<lambda>t. (Some CANCELLED,
                                report ERROR Fbx_export_failed
                                  (logger_error Traceback (logger_error Fbx_export_failed t))))
            in case export_scene_fbx env of
                 Export_raises \<Rightarrow> failed s2
               | Export_writes_nothing \<Rightarrow>
                   failed (restore_selection original_selection original_active s2)
               | Export_writes nonempty \<Rightarrow>
                   (let s3 = restore_selection original_selection original_active
                               (write_file Export_fbx s2)
                    in if \<not> nonempty then failed s3
                       else
                         (let s4 = logger_info Fbx_export_completed s3;
                              s5 = write_file Export_script s4;
                              s6 = logger_info Running_export_script s5
                          in case run_export_script env of
                               Run_raises \<Rightarrow>
                                 (Some CANCELLED,
                                  report ERROR Error_running_export_script
                                    (logger_error Traceback
                                       (logger_error Error_running_export_script s6)))
                             | Run_returns returncode stdout_msg stderr_msg written \<Rightarrow>
                                 (let s7 = (if stdout_msg \<noteq> []
                                            then logger_info (Script_stdout stdout_msg) s6
                                            else s6);
                                      s8 = (if stderr_msg \<noteq> []
                                            then logger_error (Script_stderr stderr_msg) s7
                                            else s7)
                                  in if returncode \<noteq> 0 then
                                       (Some CANCELLED,
                                        report ERROR (Export_script_failed returncode)
                                          (logger_error (Export_script_failed returncode) s8))
                                     else (None, s8))))))"

text \<open>Leaving the \<^verbatim>\<open>with\<close> block removes the temporary directory and what is in it.\<close>

definition cleanup_temp_dir :: "host \<Rightarrow> host" where
  "cleanup_temp_dir s = s\<lparr>files := files s - {Export_fbx, Export_script}\<rparr>"

definition export_max :: "export_op \<Rightarrow> export_env \<Rightarrow> host \<Rightarrow> status \<times> host" where
  "export_max op env s =
     (if \<not> export_python_found env then
        (CANCELLED,
         report ERROR Python_executable_not_found
           (logger_error Python_executable_not_found s))
      else
        (case export_body op env s of
           (Some st, s1) \<Rightarrow> (st, cleanup_temp_dir s1)
         | (None, s1) \<Rightarrow>
             (FINISHED,
              report INFO Exported_successfully
                (logger_info Export_completed (cleanup_temp_dir s1)))))"

text \<open>
  \<^verbatim>\<open>ExportMax.execute\<close>: the normalisation of the output path changes no state of
  the model.
\<close>

definition execute_export :: "export_op \<Rightarrow> export_env \<Rightarrow> host \<Rightarrow> status \<times> host" where
  "execute_export op env s =
     (if \<not> filepath_given env then (CANCELLED, report ERROR No_filepath s)
      else export_max op env (logger_info Initiating_export s))"

section \<open>Auxiliary notions for the statements\<close>

text \<open>
  The flag that guards the deletion of a type in \<open>delete_by_flags\<close>. No statement of
  the source deletes an object of a type without a flag.
\<close>

fun retained :: "import_op \<Rightarrow> object_type \<Rightarrow> bool" where
  "retained op MESH = import_models op"
| "retained op LIGHT = import_lights op"
| "retained op CAMERA = import_cameras op"
| "retained op CURVE = import_splines op"
| "retained op ARMATURE = import_armatures op"
| "retained op EMPTY = True"
| "retained op OTHER = True"

definition desel :: "scene_object \<Rightarrow> scene_object" where
  "desel ob = ob\<lparr>select := False\<rparr>"

text \<open>An object after the corrective transform, and after the stripping.\<close>

definition corrected :: "import_op \<Rightarrow> scene_object \<Rightarrow> scene_object" where
  "corrected op ob =
     ob\<lparr>rotation_euler :=
          (if apply_rotation op then (rotation_180, snd (rotation_euler ob))
           else rotation_euler ob),
        scale := (if apply_scale op then scale_001 else scale ob)\<rparr>"

definition stripped :: "import_op \<Rightarrow> scene_object \<Rightarrow> scene_object" where
  "stripped op ob =
     ob\<lparr>animation_data := (if import_animations op then animation_data ob else None),
        data := (if import_materials op then data ob
                 else map_option clear_slots (data ob))\<rparr>"

definition is_transform_call :: "call \<Rightarrow> bool" where
  "is_transform_call c =
     (case c of Set_rotation_euler_x n x \<Rightarrow> True | Set_scale n v \<Rightarrow> True | _ \<Rightarrow> False)"

text \<open>
  \<open>quiet s s'\<close>: from \<open>s\<close> to \<open>s'\<close> the host was called only through calls that do not
  write a rotation or a scale.
\<close>

definition quiet :: "host \<Rightarrow> host \<Rightarrow> bool" where
  "quiet s s' = (\<exists>post. calls s' = calls s @ post \<and> filter is_transform_call post = [])"

text \<open>The calls that select the batch: the first object is also made active.\<close>

definition select_calls :: "handle list \<Rightarrow> call list" where
  "select_calls ns =
     (case ns of
        [] \<Rightarrow> []
      | n # rest \<Rightarrow> Select_set n True # Set_active n # map (\<lambda>m. Select_set m True) rest)"

section \<open>Example scenes\<close>

text \<open>
  A scene of four freshly imported objects, and configurations: every flag set; the
  scenario of the specification (lights off, rotation on) with animations and
  materials off as well; and models off with animations and armatures on.
\<close>

definition meshA :: scene_object where
  "meshA = \<lparr>otype = MESH, select = True, animation_data = Some ''MeshAction'',
            data = Some (Materials [''Steel'', ''Glass'']), rotation_euler = (0, 0, 0),
            scale = (1, 1, 1), in_view_layer = True\<rparr>"

definition lightB :: scene_object where
  "lightB = \<lparr>otype = LIGHT, select = True, animation_data = None,
             data = Some Without_materials, rotation_euler = (0, 0, 0),
             scale = (1, 1, 1), in_view_layer = True\<rparr>"

definition cameraC :: scene_object where
  "cameraC = \<lparr>otype = CAMERA, select = True, animation_data = Some ''CameraAction'',
              data = Some Without_materials, rotation_euler = (1, 0, 0),
              scale = (1, 1, 1), in_view_layer = True\<rparr>"

definition rigD :: scene_object where
  "rigD = \<lparr>otype = ARMATURE, select = True, animation_data = Some ''RigAction'',
           data = Some Without_materials, rotation_euler = (0, 0, 0),
           scale = (1, 1, 1), in_view_layer = True\<rparr>"

definition scene0 :: host where
  "scene0 = \<lparr>scene_order = [''meshA'', ''lightB'', ''cameraC'', ''rigD''],
             objects = [''meshA'' \<mapsto> meshA, ''lightB'' \<mapsto> lightB, ''cameraC'' \<mapsto> cameraC,
                        ''rigD'' \<mapsto> rigD],
             active = None, calls = [], logger = [], reports = [], files = {}\<rparr>"

definition batch0 :: "handle list" where
  "batch0 = [''meshA'', ''lightB'', ''cameraC'', ''rigD'']"

definition all_flags :: import_op where
  "all_flags = \<lparr>import_models = True, import_lights = True, import_cameras = True,
                import_splines = True, import_animations = True, import_materials = True,
                import_armatures = True, apply_rotation = True, apply_scale = True\<rparr>"

definition scenario_flags :: import_op where
  "scenario_flags = \<lparr>import_models = True, import_lights = False, import_cameras = True,
                     import_splines = True, import_animations = False,
                     import_materials = False, import_armatures = True,
                     apply_rotation = True, apply_scale = False\<rparr>"


definition plain_flags :: import_op where
  "plain_flags = all_flags\<lparr>apply_rotation := False, apply_scale := False\<rparr>"

text \<open>
  Environments of an import: the conversion succeeds and the FBX importer adds nothing
  to the scene; the conversion succeeds and the FBX importer raises.
\<close>

definition env_nothing_imported :: import_env where
  "env_nothing_imported =
     \<lparr>valid_max_path = True, max_python_found = True,
      run_conversion = Run_returns 0 [] [] True,
      import_scene_fbx = (\<lambda>use_anim s. Some s)\<rparr>"

definition env_importer_raises :: import_env where
  "env_importer_raises =
     \<lparr>valid_max_path = True, max_python_found = True,
      run_conversion = Run_returns 0 [] [] True,
      import_scene_fbx = (\<lambda>use_anim s. None)\<rparr>"

text \<open>
  A scene whose armature lies in a collection that is excluded from the view layer,
  and an export with every filter on.
\<close>

definition scene_hidden_rig :: host where
  "scene_hidden_rig =
     \<lparr>scene_order = [''meshA'', ''rigD''],
      objects = [''meshA'' \<mapsto> meshA, ''rigD'' \<mapsto> rigD\<lparr>in_view_layer := False\<rparr>],
      active = None, calls = [], logger = [], reports = [], files = {}\<rparr>"

definition export_all :: export_op where
  "export_all = \<lparr>export_models = True, export_lights = True, export_cameras = True,
                 export_splines = True, export_animations = True, use_selection = False\<rparr>"

definition export_animations_only :: export_op where
  "export_animations_only =
     \<lparr>export_models = False, export_lights = False, export_cameras = False,
      export_splines = False, export_animations = True, use_selection = False\<rparr>"

section \<open>Python sets as lists\<close>

lemmas prim_defs = called_def logger_info_def logger_warning_def logger_error_def report_def
  modify_def select_all_DESELECT_def select_set_def set_active_def set_rotation_euler_x_def
  set_scale_def object_delete_def animation_data_clear_def materials_clear_def


lemma set_set_add: "set (set_add n xs) = insert n (set xs)"
  by (auto simp: set_add_def)

lemma set_fold_set_add: "set (fold set_add ys xs) = set xs \<union> set ys"
  by (induction ys arbitrary: xs) (auto simp: set_set_add)

lemma set_set_update: "set (set_update xs ys) = set xs \<union> set ys"
  by (simp add: set_update_def set_fold_set_add)

section \<open>Deleting the objects of a type\<close>

text \<open>
  The selection loop of \<open>filter_objects_by_type\<close> collects the objects of the type that
  are in the scene and selects them; it changes nothing else.
\<close>

lemma has_type_select_set [simp]: "has_type (select_set m b s) n t = has_type s n t"
  by (auto simp: has_type_def prim_defs split: option.splits)

lemma in_scene_select_set [simp]: "in_scene (select_set m b s) n = in_scene s n"
  by (auto simp: in_scene_def prim_defs split: option.splits)

lemma has_type_in_scene: "has_type s n t \<Longrightarrow> in_scene s n"
  by (auto simp: has_type_def in_scene_def split: option.splits)

lemma fold_target_fst:
  "fst (fold (target_step t) ns (tg, s)) = fold set_add (filter (\<lambda>n. has_type s n t) ns) tg"
proof (induction ns arbitrary: tg s)
  case Nil
  show ?case by simp
next
  case (Cons n ns)
  show ?case
  proof (cases "has_type s n t")
    case True
    then have "target_step t n (tg, s) = (set_add n tg, select_set n True s)"
      by (simp add: target_step_def has_type_in_scene)
    then show ?thesis using True Cons.IH [of "set_add n tg" "select_set n True s"] by simp
  next
    case False
    then have "target_step t n (tg, s) = (tg, s)"
      by (simp add: target_step_def)
    then show ?thesis using False Cons.IH [of tg s] by simp
  qed
qed

lemma fold_target_objects:
  "objects (snd (fold (target_step t) ns (tg, s))) n =
     (if n \<in> set ns \<and> has_type s n t
      then map_option (\<lambda>ob. ob\<lparr>select := True\<rparr>) (objects s n)
      else objects s n)"
proof (induction ns arbitrary: tg s)
  case Nil
  show ?case by simp
next
  case (Cons m ns)
  show ?case
  proof (cases "has_type s m t")
    case True
    then have st: "target_step t m (tg, s) = (set_add m tg, select_set m True s)"
      by (simp add: target_step_def has_type_in_scene)
    have "objects (select_set m True s) n =
            (if n = m then map_option (\<lambda>ob. ob\<lparr>select := True\<rparr>) (objects s n) else objects s n)"
      by (simp add: prim_defs)
    then show ?thesis
      using True Cons.IH [of "set_add m tg" "select_set m True s"] st
      by (auto simp: option.map_comp comp_def)
  next
    case False
    then have "target_step t m (tg, s) = (tg, s)"
      by (simp add: target_step_def)
    then show ?thesis using False Cons.IH [of tg s] by auto
  qed
qed

lemma has_type_deselect [simp]: "has_type (select_all_DESELECT s) n t = has_type s n t"
  by (auto simp: has_type_def prim_defs split: option.splits)

lemma objects_logger_info [simp]: "objects (logger_info m s) = objects s"
  by (simp add: prim_defs)

lemma objects_deselect:
  "objects (select_all_DESELECT s) n = map_option desel (objects s n)"
  by (simp add: prim_defs desel_def [abs_def])

lemma objects_object_delete:
  "objects (object_delete s) n = (if is_selected s n then None else objects s n)"
  by (simp add: prim_defs)

lemma is_selected_logger_info [simp]: "is_selected (logger_info m s) = is_selected s"
  by (simp add: is_selected_def fun_eq_iff)

lemma filter_by_type_fst:
  "fst (filter_objects_by_type ns t False s) =
     fold set_add (filter (\<lambda>n. has_type s n t) ns) []"
proof (cases "fst (fold (target_step t) ns ([], select_all_DESELECT s)) = []")
  case True
  then show ?thesis
    using fold_target_fst [of t ns "[]" "select_all_DESELECT s"]
    by (simp add: filter_objects_by_type_def Let_def split_beta)
next
  case False
  then show ?thesis
    using fold_target_fst [of t ns "[]" "select_all_DESELECT s"]
    by (simp add: filter_objects_by_type_def Let_def split_beta)
qed

lemma filter_by_type_removed:
  "set (fst (filter_objects_by_type ns t False s)) = {n \<in> set ns. has_type s n t}"
  by (simp add: filter_by_type_fst set_fold_set_add)

text \<open>
  With \<^verbatim>\<open>keep=False\<close> the objects of the type leave the scene and every other
  object is left deselected, on both branches of the function.
\<close>

lemma filter_by_type_objects:
  "objects (snd (filter_objects_by_type ns t False s)) n =
     (if n \<in> set ns \<and> has_type s n t then None else map_option desel (objects s n))"
proof -
  let ?s1 = "select_all_DESELECT s"
  let ?r = "fold (target_step t) ns ([], ?s1)"
  have tg: "set (fst ?r) = {n \<in> set ns. has_type s n t}"
    by (simp add: fold_target_fst set_fold_set_add)
  have ob: "objects (snd ?r) n =
              (if n \<in> set ns \<and> has_type s n t
               then map_option (\<lambda>ob. ob\<lparr>select := True\<rparr>) (map_option desel (objects s n))
               else map_option desel (objects s n))"
    by (simp add: fold_target_objects objects_deselect)
  have sel: "is_selected (snd ?r) n = (n \<in> set ns \<and> has_type s n t)"
    using ob by (auto simp: is_selected_def has_type_def desel_def split: option.splits)
  show ?thesis
  proof (cases "fst ?r = []")
    case True
    then have "{n \<in> set ns. has_type s n t} = {}" using tg by simp
    then have no: "\<not> (n \<in> set ns \<and> has_type s n t)" by blast
    have "objects (snd (filter_objects_by_type ns t False s)) n =
            map_option desel (objects (snd ?r) n)"
      using True by (simp add: filter_objects_by_type_def Let_def split_beta objects_deselect)
    then show ?thesis using no ob by (auto simp: option.map_comp comp_def desel_def [abs_def])
  next
    case False
    then have "objects (snd (filter_objects_by_type ns t False s)) n =
            (if is_selected (snd ?r) n then None else objects (snd ?r) n)"
      by (simp add: filter_objects_by_type_def Let_def split_beta objects_object_delete)
    then show ?thesis using sel ob by simp
  qed
qed

text \<open>
  One deletion by type, seen from a scene \<open>b\<close> in which nothing is selected: if so
  far the batch objects of the types in \<open>dm\<close> have been deleted and recorded, then
  afterwards those of the types in \<open>dm\<close> and of type \<open>t\<close> have been.
\<close>

lemma has_type_conv:
  "has_type s n t = (case objects s n of None \<Rightarrow> False | Some ob \<Rightarrow> otype ob = t)"
  by (simp add: has_type_def)

lemma delete_type_step:
  assumes ob: "\<And>n. objects (snd acc) n =
                 (case b n of None \<Rightarrow> None
                  | Some ob \<Rightarrow> if n \<in> set ns \<and> dm (otype ob) then None else Some ob)"
    and rm: "set (fst acc) = {n \<in> set ns. \<exists>ob. b n = Some ob \<and> dm (otype ob)}"
    and ds: "\<forall>n ob. b n = Some ob \<longrightarrow> \<not> select ob"
  shows "objects (snd (delete_type t ns acc)) n =
           (case b n of None \<Rightarrow> None
            | Some ob \<Rightarrow> if n \<in> set ns \<and> (dm (otype ob) \<or> otype ob = t) then None else Some ob)"
    and "set (fst (delete_type t ns acc)) =
           {n \<in> set ns. \<exists>ob. b n = Some ob \<and> (dm (otype ob) \<or> otype ob = t)}"
proof -
  have d: "desel ob = ob" if "b n = Some ob" for n ob
    using ds that by (simp add: desel_def)
  show "objects (snd (delete_type t ns acc)) n =
           (case b n of None \<Rightarrow> None
            | Some ob \<Rightarrow> if n \<in> set ns \<and> (dm (otype ob) \<or> otype ob = t) then None else Some ob)"
    using d [of n]
    by (auto simp: delete_type_def split_beta filter_by_type_objects has_type_conv ob
             split: option.splits)
  show "set (fst (delete_type t ns acc)) =
           {n \<in> set ns. \<exists>ob. b n = Some ob \<and> (dm (otype ob) \<or> otype ob = t)}"
    by (auto simp: delete_type_def split_beta set_set_update filter_by_type_removed rm
                   has_type_conv ob split: option.splits if_splits)
qed

lemma delete_if_step:
  assumes ob: "\<And>n. objects (snd acc) n =
                 (case b n of None \<Rightarrow> None
                  | Some ob \<Rightarrow> if n \<in> set ns \<and> dm (otype ob) then None else Some ob)"
    and rm: "set (fst acc) = {n \<in> set ns. \<exists>ob. b n = Some ob \<and> dm (otype ob)}"
    and ds: "\<forall>n ob. b n = Some ob \<longrightarrow> \<not> select ob"
  shows "objects (snd (if \<not> flag then delete_type t ns acc else acc)) n =
           (case b n of None \<Rightarrow> None
            | Some ob \<Rightarrow> if n \<in> set ns \<and> (dm (otype ob) \<or> \<not> flag \<and> otype ob = t) then None
                         else Some ob)"
    and "set (fst (if \<not> flag then delete_type t ns acc else acc)) =
           {n \<in> set ns. \<exists>ob. b n = Some ob \<and> (dm (otype ob) \<or> \<not> flag \<and> otype ob = t)}"
proof -
  show "objects (snd (if \<not> flag then delete_type t ns acc else acc)) n =
           (case b n of None \<Rightarrow> None
            | Some ob \<Rightarrow> if n \<in> set ns \<and> (dm (otype ob) \<or> \<not> flag \<and> otype ob = t) then None
                         else Some ob)"
  proof (cases flag)
    case True
    then show ?thesis using ob [of n] by (simp split: option.splits)
  next
    case False
    then show ?thesis using delete_type_step(1) [OF ob rm ds, where n = n and t = t] by (simp split: option.splits)
  qed
  show "set (fst (if \<not> flag then delete_type t ns acc else acc)) =
           {n \<in> set ns. \<exists>ob. b n = Some ob \<and> (dm (otype ob) \<or> \<not> flag \<and> otype ob = t)}"
  proof (cases flag)
    case True
    then show ?thesis using rm by simp
  next
    case False
    then show ?thesis using delete_type_step(2) [OF ob rm ds, where t = t] by simp
  qed
qed

lemma retained_conv:
  "(((((False \<or> \<not> import_models op \<and> u = MESH) \<or> \<not> import_lights op \<and> u = LIGHT)
      \<or> \<not> import_cameras op \<and> u = CAMERA) \<or> \<not> import_splines op \<and> u = CURVE)
      \<or> \<not> import_armatures op \<and> u = ARMATURE) = (\<not> retained op u)"
  by (cases u) simp_all

text \<open>
  The five deletions together delete and record exactly the batch objects whose type
  has its flag off.
\<close>

lemma delete_by_flags_closed:
  assumes ds: "\<forall>n ob. objects s n = Some ob \<longrightarrow> \<not> select ob"
  shows "objects (snd (delete_by_flags op ns s)) n =
           (case objects s n of None \<Rightarrow> None
            | Some ob \<Rightarrow> if n \<in> set ns \<and> \<not> retained op (otype ob) then None else Some ob)"
    and "set (fst (delete_by_flags op ns s)) =
           {n \<in> set ns. \<exists>ob. objects s n = Some ob \<and> \<not> retained op (otype ob)}"
proof -
  define acc0 :: "handle list \<times> host" where "acc0 = ([], s)"
  define acc1 where "acc1 = (if \<not> import_models op then delete_type MESH ns acc0 else acc0)"
  define acc2 where "acc2 = (if \<not> import_lights op then delete_type LIGHT ns acc1 else acc1)"
  define acc3 where "acc3 = (if \<not> import_cameras op then delete_type CAMERA ns acc2 else acc2)"
  define acc4 where "acc4 = (if \<not> import_splines op then delete_type CURVE ns acc3 else acc3)"
  define acc5 where "acc5 = (if \<not> import_armatures op then delete_type ARMATURE ns acc4 else acc4)"
  define dm0 :: "object_type \<Rightarrow> bool" where "dm0 = (\<lambda>u. False)"
  define dm1 where "dm1 = (\<lambda>u. dm0 u \<or> \<not> import_models op \<and> u = MESH)"
  define dm2 where "dm2 = (\<lambda>u. dm1 u \<or> \<not> import_lights op \<and> u = LIGHT)"
  define dm3 where "dm3 = (\<lambda>u. dm2 u \<or> \<not> import_cameras op \<and> u = CAMERA)"
  define dm4 where "dm4 = (\<lambda>u. dm3 u \<or> \<not> import_splines op \<and> u = CURVE)"
  define dm5 where "dm5 = (\<lambda>u. dm4 u \<or> \<not> import_armatures op \<and> u = ARMATURE)"
  let ?O = "\<lambda>acc dm. \<forall>n. objects (snd acc) n =
                 (case objects s n of None \<Rightarrow> None
                  | Some ob \<Rightarrow> if n \<in> set ns \<and> dm (otype ob) then None else Some ob)"
  let ?R = "\<lambda>acc dm. set (fst acc) = {n \<in> set ns. \<exists>ob. objects s n = Some ob \<and> dm (otype ob)}"
  have o0: "?O acc0 dm0" and r0: "?R acc0 dm0"
    by (auto simp: acc0_def dm0_def split: option.splits)
  have o1: "?O acc1 dm1" and r1: "?R acc1 dm1"
    unfolding acc1_def dm1_def
    using delete_if_step [where b = "objects s" and dm = dm0 and acc = acc0 and ns = ns
                            and flag = "import_models op" and t = MESH] o0 r0 ds
    by blast+
  have o2: "?O acc2 dm2" and r2: "?R acc2 dm2"
    unfolding acc2_def dm2_def
    using delete_if_step [where b = "objects s" and dm = dm1 and acc = acc1 and ns = ns
                            and flag = "import_lights op" and t = LIGHT] o1 r1 ds
    by blast+
  have o3: "?O acc3 dm3" and r3: "?R acc3 dm3"
    unfolding acc3_def dm3_def
    using delete_if_step [where b = "objects s" and dm = dm2 and acc = acc2 and ns = ns
                            and flag = "import_cameras op" and t = CAMERA] o2 r2 ds
    by blast+
  have o4: "?O acc4 dm4" and r4: "?R acc4 dm4"
    unfolding acc4_def dm4_def
    using delete_if_step [where b = "objects s" and dm = dm3 and acc = acc3 and ns = ns
                            and flag = "import_splines op" and t = CURVE] o3 r3 ds
    by blast+
  have o5: "?O acc5 dm5" and r5: "?R acc5 dm5"
    unfolding acc5_def dm5_def
    using delete_if_step [where b = "objects s" and dm = dm4 and acc = acc4 and ns = ns
                            and flag = "import_armatures op" and t = ARMATURE] o4 r4 ds
    by blast+
  have dm5: "dm5 u = (\<not> retained op u)" for u
    unfolding dm5_def dm4_def dm3_def dm2_def dm1_def dm0_def by (rule retained_conv)
  have res: "objects (snd (delete_by_flags op ns s)) = objects (snd acc5)"
            "fst (delete_by_flags op ns s) = fst acc5"
    by (simp_all add: delete_by_flags_def Let_def acc5_def acc4_def acc3_def acc2_def acc1_def
                      acc0_def)
  show "objects (snd (delete_by_flags op ns s)) n =
           (case objects s n of None \<Rightarrow> None
            | Some ob \<Rightarrow> if n \<in> set ns \<and> \<not> retained op (otype ob) then None else Some ob)"
    using o5 by (simp add: res dm5 cong: option.case_cong)
  show "set (fst (delete_by_flags op ns s)) =
           {n \<in> set ns. \<exists>ob. objects s n = Some ob \<and> \<not> retained op (otype ob)}"
    using r5 by (simp add: res dm5)
qed

section \<open>Stripping animation data and material slots\<close>

text \<open>
  Each loop clears the field on the objects it visits; where the source's test fails
  the field is already clear, so the loop is the clearing of the field on all of them.
\<close>

lemma clear_anim_id: "animation_data ob = None \<Longrightarrow> ob\<lparr>animation_data := None\<rparr> = ob"
  by (cases ob) simp

lemma fold_animation_objects:
  "objects (snd (fold animation_step ns (c, s))) n =
     (if n \<in> set ns then map_option (\<lambda>ob. ob\<lparr>animation_data := None\<rparr>) (objects s n)
      else objects s n)"
proof (induction ns arbitrary: c s)
  case Nil
  show ?case by simp
next
  case (Cons m ns)
  show ?case
  proof (cases "in_scene s m \<and> has_animation_data s m")
    case True
    then have st: "animation_step m (c, s) = (c + 1, animation_data_clear m s)"
      by (simp add: animation_step_def)
    have "objects (animation_data_clear m s) n =
            (if n = m then map_option (\<lambda>ob. ob\<lparr>animation_data := None\<rparr>) (objects s n)
             else objects s n)"
      by (simp add: prim_defs)
    then show ?thesis
      using Cons.IH [of "c + 1" "animation_data_clear m s"] st
      by (auto simp: option.map_comp comp_def)
  next
    case False
    then have st: "animation_step m (c, s) = (c, s)"
      by (auto simp: animation_step_def)
    have "map_option (\<lambda>ob. ob\<lparr>animation_data := None\<rparr>) (objects s m) = objects s m"
      using False
      by (auto simp: in_scene_def has_animation_data_def clear_anim_id split: option.splits)
    then show ?thesis
      using Cons.IH [of c s] st by (auto simp: option.map_comp comp_def)
  qed
qed

lemma filter_animations_objects:
  "objects (filter_animations_from_objects ns False s) n =
     (if n \<in> set ns then map_option (\<lambda>ob. ob\<lparr>animation_data := None\<rparr>) (objects s n)
      else objects s n)"
  using fold_animation_objects [of ns 0 s n]
  by (simp add: filter_animations_from_objects_def split_beta)

lemma clear_slots_id:
  "\<not> (case data ob of None \<Rightarrow> False | Some Without_materials \<Rightarrow> False
        | Some (Materials ms) \<Rightarrow> ms \<noteq> []) \<Longrightarrow>
   ob\<lparr>data := map_option clear_slots (data ob)\<rparr> = ob"
  by (cases ob) (auto split: option.splits datablock.splits)

lemma clear_slots_idem [simp]: "clear_slots (clear_slots d) = clear_slots d"
  by (cases d) simp_all

lemma fold_materials_objects:
  "objects (snd (fold materials_step ns (c, s))) n =
     (if n \<in> set ns
      then map_option (\<lambda>ob. ob\<lparr>data := map_option clear_slots (data ob)\<rparr>) (objects s n)
      else objects s n)"
proof (induction ns arbitrary: c s)
  case Nil
  show ?case by simp
next
  case (Cons m ns)
  show ?case
  proof (cases "in_scene s m \<and> has_materials_attr s m \<and> has_slots s m")
    case True
    then have st: "materials_step m (c, s) = (c + 1, materials_clear m s)"
      by (simp add: materials_step_def)
    have "objects (materials_clear m s) n =
            (if n = m
             then map_option (\<lambda>ob. ob\<lparr>data := map_option clear_slots (data ob)\<rparr>) (objects s n)
             else objects s n)"
      by (simp add: prim_defs)
    then show ?thesis
      using Cons.IH [of "c + 1" "materials_clear m s"] st
      by (auto simp: option.map_comp comp_def)
  next
    case False
    then have st: "materials_step m (c, s) = (c, s)"
      by (auto simp: materials_step_def)
    have "map_option (\<lambda>ob. ob\<lparr>data := map_option clear_slots (data ob)\<rparr>) (objects s m) =
            objects s m"
    proof (cases "objects s m")
      case None
      then show ?thesis by simp
    next
      case (Some ob)
      then have "\<not> (case data ob of None \<Rightarrow> False | Some Without_materials \<Rightarrow> False
                      | Some (Materials ms) \<Rightarrow> ms \<noteq> [])"
        using False
        by (auto simp: in_scene_def has_materials_attr_def has_slots_def
                 split: option.splits datablock.splits)
      then show ?thesis using Some by (simp add: clear_slots_id)
    qed
    then show ?thesis
      using Cons.IH [of c s] st by (auto simp: option.map_comp comp_def)
  qed
qed

lemma filter_materials_objects:
  "objects (filter_materials_from_objects ns False s) n =
     (if n \<in> set ns
      then map_option (\<lambda>ob. ob\<lparr>data := map_option clear_slots (data ob)\<rparr>) (objects s n)
      else objects s n)"
  using fold_materials_objects [of ns 0 s n]
  by (simp add: filter_materials_from_objects_def split_beta)

section \<open>The scene after the pipeline\<close>

lemma asset_filtering_removed:
  "fst (fst (asset_filtering op ns s)) = fst (delete_by_flags op ns s)"
  by (simp add: asset_filtering_def Let_def split_beta)

lemma asset_filtering_survivors:
  "snd (fst (asset_filtering op ns s)) = set_minus ns (fst (delete_by_flags op ns s))"
  by (simp add: asset_filtering_def Let_def split_beta)

lemma asset_filtering_objects:
  assumes ds: "\<forall>n ob. objects s n = Some ob \<longrightarrow> \<not> select ob"
  shows "objects (snd (asset_filtering op ns s)) n =
           (case objects s n of None \<Rightarrow> None
            | Some ob \<Rightarrow> if n \<in> set ns
                         then (if retained op (otype ob) then Some (stripped op ob) else None)
                         else Some ob)"
proof -
  define p where "p = fst (delete_by_flags op ns s)"
  define s5 where "s5 = snd (delete_by_flags op ns s)"
  define rem where "rem = set_minus ns p"
  define s6 where "s6 = (if \<not> import_animations op \<and> rem \<noteq> []
                         then filter_animations_from_objects rem False s5 else s5)"
  define s7 where "s7 = (if \<not> import_materials op \<and> rem \<noteq> []
                         then filter_materials_from_objects rem False s6 else s6)"
  have r: "snd (asset_filtering op ns s) = s7"
    by (simp add: asset_filtering_def Let_def split_beta s7_def s6_def rem_def p_def s5_def)
  have o5: "objects s5 n =
           (case objects s n of None \<Rightarrow> None
            | Some ob \<Rightarrow> if n \<in> set ns \<and> \<not> retained op (otype ob) then None else Some ob)"
    unfolding s5_def using delete_by_flags_closed(1) [OF ds] by blast
  have pset: "set p = {n \<in> set ns. \<exists>ob. objects s n = Some ob \<and> \<not> retained op (otype ob)}"
    unfolding p_def using delete_by_flags_closed(2) [OF ds] by blast
  have rset: "set rem = {n \<in> set ns. \<not> (\<exists>ob. objects s n = Some ob \<and> \<not> retained op (otype ob))}"
    unfolding rem_def set_minus_def using pset by auto
  have o6: "objects s6 n =
              (if \<not> import_animations op \<and> n \<in> set rem
               then map_option (\<lambda>ob. ob\<lparr>animation_data := None\<rparr>) (objects s5 n)
               else objects s5 n)"
    unfolding s6_def by (cases rem) (simp_all add: filter_animations_objects)
  have o7: "objects s7 n =
              (if \<not> import_materials op \<and> n \<in> set rem
               then map_option (\<lambda>ob. ob\<lparr>data := map_option clear_slots (data ob)\<rparr>) (objects s6 n)
               else objects s6 n)"
    unfolding s7_def by (cases rem) (simp_all add: filter_materials_objects)
  show ?thesis
    unfolding r o7 o6 o5 rset
    by (cases "objects s n") (auto simp: stripped_def)
qed

text \<open>The transform stage.\<close>

lemma fold_select_imported_objects:
  "objects (snd (fold select_imported_step ns (b, s))) n =
     (if n \<in> set ns then map_option (\<lambda>ob. ob\<lparr>select := True\<rparr>) (objects s n) else objects s n)"
proof (induction ns arbitrary: b s)
  case Nil
  show ?case by simp
next
  case (Cons m ns)
  have st: "objects (snd (select_imported_step m (b, s))) n =
              (if n = m then map_option (\<lambda>ob. ob\<lparr>select := True\<rparr>) (objects s n)
               else objects s n)"
    by (simp add: select_imported_step_def Let_def prim_defs)
  show ?case
    using Cons.IH [of "fst (select_imported_step m (b, s))" "snd (select_imported_step m (b, s))"]
      st
    by (auto simp: option.map_comp comp_def)
qed

lemma fold_rotation_objects:
  "objects (fold (\<lambda>n. set_rotation_euler_x n x) ns s) n =
     (if n \<in> set ns
      then map_option (\<lambda>ob. ob\<lparr>rotation_euler := (x, snd (rotation_euler ob))\<rparr>) (objects s n)
      else objects s n)"
proof (induction ns arbitrary: s)
  case Nil
  show ?case by simp
next
  case (Cons m ns)
  have st: "objects (set_rotation_euler_x m x s) n =
              (if n = m
               then map_option (\<lambda>ob. ob\<lparr>rotation_euler := (x, snd (rotation_euler ob))\<rparr>)
                      (objects s n)
               else objects s n)"
    by (simp add: prim_defs)
  show ?case
    using Cons.IH [of "set_rotation_euler_x m x s"] st
    by (auto simp: option.map_comp comp_def)
qed

lemma fold_scale_objects:
  "objects (fold (\<lambda>n. set_scale n v) ns s) n =
     (if n \<in> set ns then map_option (\<lambda>ob. ob\<lparr>scale := v\<rparr>) (objects s n) else objects s n)"
proof (induction ns arbitrary: s)
  case Nil
  show ?case by simp
next
  case (Cons m ns)
  have st: "objects (set_scale m v s) n =
              (if n = m then map_option (\<lambda>ob. ob\<lparr>scale := v\<rparr>) (objects s n) else objects s n)"
    by (simp add: prim_defs)
  show ?case
    using Cons.IH [of "set_scale m v s"] st
    by (auto simp: option.map_comp comp_def)
qed

lemma apply_transforms_objects:
  "objects (apply_transforms op ns s) n =
     (if n \<in> set ns then map_option (corrected op) (objects s n) else objects s n)"
  by (cases "objects s n")
     (auto simp: apply_transforms_def Let_def fold_rotation_objects fold_scale_objects
                 corrected_def)

lemma transform_stage_objects:
  "objects (transform_stage op ns s) n =
     map_option (\<lambda>ob. if n \<in> set ns then desel (corrected op ob) else desel ob) (objects s n)"
  by (cases "objects s n")
     (auto simp: transform_stage_def Let_def split_beta objects_deselect
                 apply_transforms_objects fold_select_imported_objects desel_def corrected_def)

lemma transform_stage_deselected:
  "\<forall>n ob. objects (transform_stage op ns s) n = Some ob \<longrightarrow> \<not> select ob"
  by (auto simp: transform_stage_objects desel_def split: if_splits)

lemma otype_corrected [simp]: "otype (corrected op ob) = otype ob"
  by (simp add: corrected_def)

lemma otype_desel [simp]: "otype (desel ob) = otype ob"
  by (simp add: desel_def)

text \<open>
  The object map after the pipeline, and what the pipeline returns, in closed form.
\<close>

lemma filter_pipeline_objects:
  "objects (snd (filter_pipeline op ns s)) n =
     (case objects s n of None \<Rightarrow> None
      | Some ob \<Rightarrow>
          if n \<in> set ns
          then (if retained op (otype ob) then Some (stripped op (desel (corrected op ob)))
                else None)
          else Some (desel ob))"
proof -
  have ds: "\<forall>n ob. objects (transform_stage op ns s) n = Some ob \<longrightarrow> \<not> select ob"
    by (rule transform_stage_deselected)
  show ?thesis
    unfolding filter_pipeline_def
    using asset_filtering_objects [OF ds, where op = op and ns = ns and n = n]
    by (cases "objects s n") (auto simp: transform_stage_objects)
qed

lemma filter_pipeline_removed:
  "set (removed (filter_pipeline op ns s)) =
     {n \<in> set ns. \<exists>ob. objects s n = Some ob \<and> \<not> retained op (otype ob)}"
proof -
  have ds: "\<forall>n ob. objects (transform_stage op ns s) n = Some ob \<longrightarrow> \<not> select ob"
    by (rule transform_stage_deselected)
  show ?thesis
    unfolding filter_pipeline_def removed_def asset_filtering_removed
    using delete_by_flags_closed(2) [OF ds, where op = op and ns = ns]
    by (auto simp: transform_stage_objects)
qed

lemma filter_pipeline_survivors:
  "survivors (filter_pipeline op ns s) = set_minus ns (removed (filter_pipeline op ns s))"
  by (simp add: filter_pipeline_def survivors_def removed_def asset_filtering_removed
                asset_filtering_survivors)

section \<open>The log of the pipeline\<close>

lemma logger_prims [simp]:
  "logger (called c s) = logger s"
  "logger (modify n f s) = logger s"
  "logger (select_all_DESELECT s) = logger s"
  "logger (select_set n b s) = logger s"
  "logger (set_active n s) = logger s"
  "logger (set_rotation_euler_x n x s) = logger s"
  "logger (set_scale n v s) = logger s"
  "logger (object_delete s) = logger s"
  "logger (animation_data_clear n s) = logger s"
  "logger (materials_clear n s) = logger s"
  "logger (logger_info m s) = logger s @ [(INFO, m)]"
  by (simp_all add: prim_defs)

lemma logger_fold_animation [simp]: "logger (snd (fold animation_step ns (c, s))) = logger s"
  by (induction ns arbitrary: c s) (simp_all add: animation_step_def)

lemma logger_fold_materials [simp]: "logger (snd (fold materials_step ns (c, s))) = logger s"
  by (induction ns arbitrary: c s) (simp_all add: materials_step_def)






section \<open>The calls of the pipeline\<close>

text \<open>The filters call the host, but never to write a rotation or a scale.\<close>

lemma calls_prims [simp]:
  "calls (called c s) = calls s @ [c]"
  "calls (modify n f s) = calls s"
  "calls (logger_info m s) = calls s"
  "calls (select_all_DESELECT s) = calls s @ [Select_all_DESELECT]"
  "calls (select_set n b s) = calls s @ [Select_set n b]"
  "calls (set_active n s) = calls s @ [Set_active n]"
  "calls (set_rotation_euler_x n x s) = calls s @ [Set_rotation_euler_x n x]"
  "calls (set_scale n v s) = calls s @ [Set_scale n v]"
  "calls (object_delete s) = calls s @ [Object_delete]"
  "calls (animation_data_clear n s) = calls s @ [Animation_data_clear n]"
  "calls (materials_clear n s) = calls s @ [Materials_clear n]"
  by (simp_all add: prim_defs)

lemma quiet_refl [simp]: "quiet s s"
  by (simp add: quiet_def)

lemma quiet_trans: "quiet s t \<Longrightarrow> quiet t u \<Longrightarrow> quiet s u"
  by (auto simp: quiet_def)

lemma quiet_prims [simp]:
  "quiet s (logger_info m s)"
  "quiet s (select_all_DESELECT s)"
  "quiet s (select_set n b s)"
  "quiet s (object_delete s)"
  "quiet s (animation_data_clear n s)"
  "quiet s (materials_clear n s)"
  by (simp_all add: quiet_def is_transform_call_def)

lemma quiet_fold_target: "quiet s (snd (fold (target_step t) ns (tg, s)))"
proof (induction ns arbitrary: tg s)
  case Nil
  show ?case by simp
next
  case (Cons m ns)
  have "quiet s (snd (target_step t m (tg, s)))"
    by (simp add: target_step_def)
  then show ?case
    using Cons.IH [where tg = "fst (target_step t m (tg, s))" and s = "snd (target_step t m (tg, s))"]
    by (auto intro: quiet_trans)
qed

lemma quiet_fold_animation: "quiet s (snd (fold animation_step ns (c, s)))"
proof (induction ns arbitrary: c s)
  case Nil
  show ?case by simp
next
  case (Cons m ns)
  have "quiet s (snd (animation_step m (c, s)))"
    by (simp add: animation_step_def)
  then show ?case
    using Cons.IH [where c = "fst (animation_step m (c, s))" and s = "snd (animation_step m (c, s))"]
    by (auto intro: quiet_trans)
qed

lemma quiet_fold_materials: "quiet s (snd (fold materials_step ns (c, s)))"
proof (induction ns arbitrary: c s)
  case Nil
  show ?case by simp
next
  case (Cons m ns)
  have "quiet s (snd (materials_step m (c, s)))"
    by (simp add: materials_step_def)
  then show ?case
    using Cons.IH [where c = "fst (materials_step m (c, s))" and s = "snd (materials_step m (c, s))"]
    by (auto intro: quiet_trans)
qed

lemma quiet_filter_by_type: "quiet s (snd (filter_objects_by_type ns t k s))"
proof -
  let ?s1 = "select_all_DESELECT s"
  let ?r = "fold (target_step t) ns ([], ?s1)"
  have a: "quiet s (snd ?r)"
    using quiet_fold_target [where s = ?s1 and t = t and ns = ns and tg = "[]"] quiet_prims(2) [of s] by (blast intro: quiet_trans)
  have b: "quiet (snd ?r) (snd (filter_objects_by_type ns t k s))"
    by (auto simp: filter_objects_by_type_def Let_def split_beta intro: quiet_trans quiet_prims)
  show ?thesis using a b by (rule quiet_trans)
qed

lemma quiet_delete_type: "quiet (snd acc) (snd (delete_type t ns acc))"
  by (simp add: delete_type_def split_beta quiet_filter_by_type)

lemma quiet_delete_if:
  "quiet s (snd acc) \<Longrightarrow> quiet s (snd (if c then delete_type t ns acc else acc))"
  using quiet_delete_type [where acc = acc and t = t and ns = ns] by (auto intro: quiet_trans)

lemma quiet_delete_by_flags: "quiet s (snd (delete_by_flags op ns s))"
  unfolding delete_by_flags_def Let_def
  by (auto intro!: quiet_delete_if quiet_trans [OF _ quiet_delete_type]
           intro: quiet_trans [OF _ quiet_prims(1)])

lemma quiet_filter_animations: "quiet s (filter_animations_from_objects ns k s)"
  using quiet_fold_animation [where s = s and ns = ns and c = 0]
  by (auto simp: filter_animations_from_objects_def split_beta intro: quiet_trans quiet_prims)

lemma quiet_filter_materials: "quiet s (filter_materials_from_objects ns k s)"
  using quiet_fold_materials [where s = s and ns = ns and c = 0]
  by (auto simp: filter_materials_from_objects_def split_beta intro: quiet_trans quiet_prims)

lemma quiet_asset_filtering: "quiet s (snd (asset_filtering op ns s))"
proof -
  have a: "quiet s (snd (delete_by_flags op ns s))" by (rule quiet_delete_by_flags)
  have b: "quiet (snd (delete_by_flags op ns s)) (snd (asset_filtering op ns s))"
    unfolding asset_filtering_def Let_def split_beta
    by (auto intro: quiet_trans quiet_filter_animations quiet_filter_materials)
  show ?thesis using a b by (rule quiet_trans)
qed

text \<open>The calls of the transform stage, in order.\<close>

lemma calls_fold_select_imported:
  "calls (snd (fold select_imported_step ns (b, s))) =
     calls s @ (if b then map (\<lambda>m. Select_set m True) ns else select_calls ns)"
proof (induction ns arbitrary: b s)
  case Nil
  show ?case by (simp add: select_calls_def)
next
  case (Cons m ns)
  show ?case
  proof (cases b)
    case True
    then have "select_imported_step m (b, s) = (True, select_set m True s)"
      by (simp add: select_imported_step_def Let_def)
    then show ?thesis
      using True Cons.IH [of True "select_set m True s"] by simp
  next
    case False
    then have "select_imported_step m (b, s) = (True, set_active m (select_set m True s))"
      by (simp add: select_imported_step_def Let_def)
    then show ?thesis
      using False Cons.IH [of True "set_active m (select_set m True s)"]
      by (simp add: select_calls_def)
  qed
qed

lemma calls_fold_rotation:
  "calls (fold (\<lambda>n. set_rotation_euler_x n x) ns s) =
     calls s @ map (\<lambda>n. Set_rotation_euler_x n x) ns"
  by (induction ns arbitrary: s) simp_all

lemma calls_fold_scale:
  "calls (fold (\<lambda>n. set_scale n v) ns s) = calls s @ map (\<lambda>n. Set_scale n v) ns"
  by (induction ns arbitrary: s) simp_all

lemma calls_apply_transforms:
  "calls (apply_transforms op ns s) =
     calls s @ (if apply_rotation op then map (\<lambda>n. Set_rotation_euler_x n rotation_180) ns else [])
             @ (if apply_scale op then map (\<lambda>n. Set_scale n scale_001) ns else [])"
  by (simp add: apply_transforms_def Let_def calls_fold_rotation calls_fold_scale)

lemma calls_transform_stage:
  "calls (transform_stage op ns s) =
     calls s @ ([Select_all_DESELECT] @ select_calls ns
             @ (if apply_rotation op then map (\<lambda>n. Set_rotation_euler_x n rotation_180) ns else [])
             @ (if apply_scale op then map (\<lambda>n. Set_scale n scale_001) ns else [])
             @ [Select_all_DESELECT])"
  by (simp add: transform_stage_def Let_def split_beta calls_apply_transforms
                calls_fold_select_imported)

lemma filter_transform_select_calls [simp]: "filter is_transform_call (select_calls ns) = []"
  by (cases ns) (simp_all add: select_calls_def is_transform_call_def)

lemma delete_notin_select_calls [simp]: "Object_delete \<notin> set (select_calls ns)"
  by (cases ns) (auto simp: select_calls_def)

lemma filter_transform_rot [simp]:
  "filter is_transform_call (map (\<lambda>n. Set_rotation_euler_x n x) ns) =
     map (\<lambda>n. Set_rotation_euler_x n x) ns"
  by (induction ns) (simp_all add: is_transform_call_def)

lemma filter_transform_scale [simp]:
  "filter is_transform_call (map (\<lambda>n. Set_scale n v) ns) = map (\<lambda>n. Set_scale n v) ns"
  by (induction ns) (simp_all add: is_transform_call_def)

lemma count_rot_map:
  "count_list (map (\<lambda>n. Set_rotation_euler_x n x) ns) (Set_rotation_euler_x m x) = count_list ns m"
  by (induction ns) simp_all

lemma count_scale_map:
  "count_list (map (\<lambda>n. Set_scale n v) ns) (Set_scale m v) = count_list ns m"
  by (induction ns) simp_all

lemma count_rot_scale_map [simp]:
  "count_list (map (\<lambda>n. Set_scale n v) ns) (Set_rotation_euler_x m x) = 0"
  "count_list (map (\<lambda>n. Set_rotation_euler_x n x) ns) (Set_scale m v) = 0"
  by (induction ns) simp_all

lemma count_select_calls [simp]:
  "count_list (select_calls ns) (Set_rotation_euler_x m x) = 0"
  "count_list (select_calls ns) (Set_scale m v) = 0"
  by (cases ns; auto simp: select_calls_def count_list_0_iff)+

lemma count_distinct: "distinct ns \<Longrightarrow> m \<in> set ns \<Longrightarrow> count_list ns m = 1"
  by (induction ns) auto

section \<open>Survivors\<close>

lemma set_minus_set: "set (set_minus xs ys) = set xs - set ys"
  by (auto simp: set_minus_def)

lemma filter_pipeline_survivors_set:
  "set (survivors (filter_pipeline op ns s)) =
     {n \<in> set ns. \<not> (\<exists>ob. objects s n = Some ob \<and> \<not> retained op (otype ob))}"
  by (auto simp: filter_pipeline_survivors set_minus_set filter_pipeline_removed)




lemma otype_stripped [simp]: "otype (stripped op ob) = otype ob"
  by (simp add: stripped_def)

text \<open>The selection after the pipeline.\<close>

lemma is_selected_deselect [simp]: "is_selected (select_all_DESELECT s) n = False"
  by (cases "objects s n") (simp_all add: is_selected_def prim_defs)

lemma selected_objects_empty:
  "(\<And>n. \<not> is_selected s n) \<Longrightarrow> selected_objects s = []"
  by (simp add: selected_objects_def)

lemma filter_pipeline_not_selected: "\<not> is_selected (snd (filter_pipeline op batch s)) n"
  by (cases "objects s n")
     (auto simp: is_selected_def filter_pipeline_objects stripped_def desel_def corrected_def)

lemma is_selected_files [simp]: "is_selected (os_remove f s) n = is_selected s n"
  "is_selected (report l m s) n = is_selected s n"
  by (simp_all add: is_selected_def os_remove_def report_def)

section \<open>The import operator\<close>

lemma scene_diff_logger_info [simp]:
  "scene_diff ex (logger_info m s) = scene_diff ex s"
  by (simp add: scene_diff_def scene_objects_def in_scene_def [abs_def] logger_info_def)

lemma scene_diff_self [simp]: "scene_diff (scene_objects s) s = []"
  by (simp add: scene_diff_def)

lemma finish_import_empty:
  assumes "scene_diff existing_object_names s = []"
  shows "finish_import op existing_object_names s =
           (FINISHED,
            report INFO Successfully_imported
              (os_remove Import_fbx
                 (select_all_DESELECT
                    (logger_info (Identified_imported 0) (logger_info Fbx_imported s)))))"
proof -
  have "scene_diff existing_object_names (logger_info Fbx_imported s) = []"
    using assms by simp
  then show ?thesis
    by (simp add: finish_import_def Let_def)
qed

lemma execute_import_nothing_imported:
  "execute_import op env_nothing_imported s =
     (FINISHED,
      report INFO Successfully_imported
        (os_remove Import_fbx
           (select_all_DESELECT
              (logger_info (Identified_imported 0)
                 (logger_info Fbx_imported
                    (select_all_DESELECT
                       (logger_info Importing_generated_fbx
                          (write_file Import_fbx
                             (logger_info Executing_conversion_script
                                (write_file Import_script
                                   (logger_info Initiating_import s)))))))))))"
  by (simp add: execute_import_def convert_to_fbx_def import_fbx_def Let_def
                env_nothing_imported_def finish_import_empty write_file_def logger_info_def)

lemma execute_import_importer_raises:
  "execute_import op env_importer_raises s =
     (CANCELLED,
      report ERROR Fbx_import_failed
        (logger_error Fbx_import_failed
           (select_all_DESELECT
              (logger_info Importing_generated_fbx
                 (write_file Import_fbx
                    (logger_info Executing_conversion_script
                       (write_file Import_script
                          (logger_info Initiating_import s))))))))"
  by (simp add: execute_import_def convert_to_fbx_def import_fbx_def Let_def
                env_importer_raises_def write_file_def logger_info_def)

section \<open>Temporary files\<close>

lemma files_prims [simp]:
  "files (called c s) = files s"
  "files (modify n f s) = files s"
  "files (logger_info m s) = files s"
  "files (logger_warning m s) = files s"
  "files (logger_error m s) = files s"
  "files (report l m s) = files s"
  "files (select_all_DESELECT s) = files s"
  "files (select_set n b s) = files s"
  "files (set_active n s) = files s"
  "files (write_file tf s) = insert tf (files s)"
  "files (cleanup_temp_dir s) = files s - {Export_fbx, Export_script}"
  by (simp_all add: prim_defs write_file_def cleanup_temp_dir_def)

lemma files_fold_restore [simp]: "files (fold restore_step ns s) = files s"
  by (induction ns arbitrary: s) (simp_all add: restore_step_def)

lemma files_restore_selection [simp]: "files (restore_selection sel act s) = files s"
  by (simp add: restore_selection_def Let_def split: option.splits)

lemma files_fold_export_select [simp]:
  "files (snd (fold (export_select_step op) ns (c, s))) = files s"
  by (induction ns arbitrary: c s)
     (simp_all add: export_select_step_def Let_def split: option.splits)

lemma files_export_selection [simp]: "files (snd (export_selection op s)) = files s"
  by (simp add: export_selection_def Let_def)

lemma files_prims_import [simp]:
  "files (set_rotation_euler_x n x s) = files s"
  "files (set_scale n v s) = files s"
  "files (object_delete s) = files s"
  "files (animation_data_clear n s) = files s"
  "files (materials_clear n s) = files s"
  by (simp_all add: prim_defs)

lemma files_fold_target [simp]: "files (snd (fold (target_step t) ns (tg, s))) = files s"
  by (induction ns arbitrary: tg s) (simp_all add: target_step_def)

lemma files_filter_by_type [simp]: "files (snd (filter_objects_by_type ns t k s)) = files s"
  by (simp add: filter_objects_by_type_def Let_def split_beta)

lemma files_delete_type [simp]: "files (snd (delete_type t ns acc)) = files (snd acc)"
  by (simp add: delete_type_def split_beta)

lemma files_delete_by_flags [simp]: "files (snd (delete_by_flags op ns s)) = files s"
  by (simp add: delete_by_flags_def Let_def)

lemma files_fold_animation [simp]: "files (snd (fold animation_step ns (c, s))) = files s"
  by (induction ns arbitrary: c s) (simp_all add: animation_step_def)

lemma files_fold_materials [simp]: "files (snd (fold materials_step ns (c, s))) = files s"
  by (induction ns arbitrary: c s) (simp_all add: materials_step_def)

lemma files_filter_animations [simp]:
  "files (filter_animations_from_objects ns k s) = files s"
  by (simp add: filter_animations_from_objects_def split_beta)

lemma files_filter_materials [simp]:
  "files (filter_materials_from_objects ns k s) = files s"
  by (simp add: filter_materials_from_objects_def split_beta)

lemma files_asset_filtering [simp]: "files (snd (asset_filtering op ns s)) = files s"
  by (simp add: asset_filtering_def Let_def split_beta)

lemma files_fold_select_imported [simp]:
  "files (snd (fold select_imported_step ns (b, s))) = files s"
  by (induction ns arbitrary: b s) (simp_all add: select_imported_step_def Let_def)

lemma files_fold_rotation [simp]:
  "files (fold (\<lambda>n. set_rotation_euler_x n x) ns s) = files s"
  by (induction ns arbitrary: s) simp_all

lemma files_fold_scale [simp]: "files (fold (\<lambda>n. set_scale n v) ns s) = files s"
  by (induction ns arbitrary: s) simp_all

lemma files_transform_stage [simp]: "files (transform_stage op ns s) = files s"
  by (simp add: transform_stage_def apply_transforms_def Let_def split_beta)

lemma files_filter_pipeline [simp]: "files (snd (filter_pipeline op ns s)) = files s"
  by (simp add: filter_pipeline_def)

lemma files_finish_import:
  "files (snd (finish_import op ex s)) = files s - {Import_fbx}"
  by (simp add: finish_import_def Let_def os_remove_def)

text \<open>
  The generated script outlives every import that gets as far as writing it, as long
  as the FBX importer itself leaves the cache directory alone.
\<close>

lemma convert_to_fbx_script:
  "(case convert_to_fbx env s of
      Inl r \<Rightarrow> Import_script \<in> files (snd r)
    | Inr t \<Rightarrow> Import_script \<in> files t)"
  by (cases "run_conversion env") (simp_all add: convert_to_fbx_def Let_def)

lemma import_fbx_script:
  assumes "Import_script \<in> files s"
    and "\<And>a t t'. import_scene_fbx env a t = Some t' \<Longrightarrow> files t' = files t"
  shows "Import_script \<in> files (snd (import_fbx op env s))"
proof (cases "import_scene_fbx env (import_animations op)
                (select_all_DESELECT (logger_info Importing_generated_fbx s))")
  case None
  then show ?thesis using assms(1) by (simp add: import_fbx_def Let_def)
next
  case (Some t)
  then have "files t = files s" using assms(2) [OF Some] by simp
  then show ?thesis using assms(1) Some by (simp add: import_fbx_def Let_def files_finish_import)
qed

lemma import_script_remains:
  assumes "valid_max_path env" and "max_python_found env"
    and "\<And>a t t'. import_scene_fbx env a t = Some t' \<Longrightarrow> files t' = files t"
  shows "Import_script \<in> files (snd (execute_import op env s))"
proof (cases "convert_to_fbx env (logger_info Initiating_import s)")
  case (Inl r)
  then show ?thesis
    using assms(1,2) convert_to_fbx_script [of env "logger_info Initiating_import s"]
    by (simp add: execute_import_def Let_def)
next
  case (Inr t)
  then have "Import_script \<in> files t"
    using convert_to_fbx_script [of env "logger_info Initiating_import s"] by simp
  then show ?thesis
    using assms(1,2) Inr import_fbx_script [where s = t and env = env and op = op] assms(3)
    by (simp add: execute_import_def Let_def)
qed

text \<open>The export leaves nothing behind.\<close>

lemma files_export_body:
  "files (snd (export_body op env s)) \<subseteq> files s \<union> {Export_fbx, Export_script}"
  by (auto simp: export_body_def Let_def split_beta
           split: fbx_export_result.splits run_result.splits if_splits)

lemma export_max_removes_temp_files:
  "export_python_found env \<Longrightarrow>
   files (snd (export_max op env s)) \<subseteq> files s - {Export_fbx, Export_script}"
  using files_export_body [of op env s]
  by (auto simp: export_max_def split: prod.splits option.splits)

section \<open>The selection made by the export\<close>

lemma export_select_step_objects:
  "objects (snd (export_select_step op m (c, s))) n =
     (if n = m
      then map_option (\<lambda>ob. if in_view_layer ob then ob\<lparr>select := should_select op (otype ob)\<rparr>
                             else ob) (objects s n)
      else objects s n)"
  by (cases "objects s m")
     (auto simp: export_select_step_def Let_def in_view_def prim_defs split: option.splits)

lemma fold_export_select_objects:
  "objects (snd (fold (export_select_step op) ns (c, s))) n =
     (if n \<in> set ns
      then map_option (\<lambda>ob. if in_view_layer ob then ob\<lparr>select := should_select op (otype ob)\<rparr>
                             else ob) (objects s n)
      else objects s n)"
proof (induction ns arbitrary: c s)
  case Nil
  show ?case by simp
next
  case (Cons m ns)
  show ?case
    using Cons.IH [where c = "fst (export_select_step op m (c, s))"
                     and s = "snd (export_select_step op m (c, s))"]
          export_select_step_objects [of op m c s n]
    by (cases "objects s n") auto
qed

lemma export_selection_objects:
  "objects (snd (export_selection op s)) n =
     (if n \<in> set (source_objects op (selected_objects s) (select_all_DESELECT s))
      then map_option (\<lambda>ob. ob\<lparr>select := in_view_layer ob \<and> should_select op (otype ob)\<rparr>)
             (objects s n)
      else map_option (\<lambda>ob. ob\<lparr>select := False\<rparr>) (objects s n))"
  by (cases "objects s n")
     (auto simp: export_selection_def Let_def fold_export_select_objects objects_deselect
                 desel_def)

text \<open>
  With \<^verbatim>\<open>use_selection\<close> the source objects are read from
  \<^verbatim>\<open>bpy.context.selected_objects\<close> after everything has been deselected.
\<close>

lemma source_objects_use_selection:
  "use_selection op \<Longrightarrow> source_objects op sel (select_all_DESELECT s) = []"
  by (simp add: source_objects_def selected_objects_def)

section \<open>The claims of the specification\<close>



text \<open>
  \<^bold>\<open>C2\<close>, as the code has it. When the seven retention flags (models, lights, cameras,
  splines, animations, materials, armatures) are set, the pipeline removes nothing,
  every object of the batch survives, and animation data and material slots stay as
  they were. A batch object is deselected, its x rotation is overwritten exactly when
  \<open>apply_rotation\<close> is set and its scale exactly when \<open>apply_scale\<close> is set; objects
  outside the batch are only deselected. No transform is applied when both of these
  flags are off.
\<close>

theorem all_retained_deletes_nothing:
  assumes "import_models op" and "import_lights op" and "import_cameras op"
    and "import_splines op" and "import_animations op" and "import_materials op"
    and "import_armatures op"
  shows "removed (filter_pipeline op batch s) = [] \<and>
         survivors (filter_pipeline op batch s) = batch \<and>
         objects (snd (filter_pipeline op batch s)) n =
           map_option
             (\<lambda>ob. if n \<in> set batch
                   then ob\<lparr>select := False,
                           rotation_euler :=
                             (if apply_rotation op then (rotation_180, snd (rotation_euler ob))
                              else rotation_euler ob),
                           scale := (if apply_scale op then scale_001 else scale ob)\<rparr>
                   else ob\<lparr>select := False\<rparr>)
             (objects s n)"
proof -
  have ret: "retained op t" for t
    using assms by (cases t) simp_all
  have "set (removed (filter_pipeline op batch s)) = {}"
    by (simp add: filter_pipeline_removed ret)
  then have r: "removed (filter_pipeline op batch s) = []" by simp
  have sv: "survivors (filter_pipeline op batch s) = batch"
    by (simp add: filter_pipeline_survivors r set_minus_def)
  have "objects (snd (filter_pipeline op batch s)) n =
           map_option
             (\<lambda>ob. if n \<in> set batch
                   then ob\<lparr>select := False,
                           rotation_euler :=
                             (if apply_rotation op then (rotation_180, snd (rotation_euler ob))
                              else rotation_euler ob),
                           scale := (if apply_scale op then scale_001 else scale ob)\<rparr>
                   else ob\<lparr>select := False\<rparr>)
             (objects s n)"
    using assms
    by (cases "objects s n")
       (simp_all add: filter_pipeline_objects ret stripped_def desel_def corrected_def)
  then show ?thesis using r sv by simp
qed

text \<open>
  With the seven flags set and both transforms off, the camera of the example scene
  is unchanged but for its selection bit.
\<close>

theorem all_retained_deletes_nothing_witness:
  "import_models plain_flags \<and> import_lights plain_flags \<and> import_cameras plain_flags \<and>
   import_splines plain_flags \<and> import_animations plain_flags \<and>
   import_materials plain_flags \<and> import_armatures plain_flags \<and>
   removed (filter_pipeline plain_flags batch0 scene0) = [] \<and>
   survivors (filter_pipeline plain_flags batch0 scene0) = batch0 \<and>
   objects (snd (filter_pipeline plain_flags batch0 scene0)) ''cameraC'' =
     Some (cameraC\<lparr>select := False\<rparr>)"
  using all_retained_deletes_nothing [of plain_flags batch0 scene0 "''cameraC''"]
  by (simp add: plain_flags_def all_flags_def batch0_def scene0_def)

text \<open>
  With all nine flags set, as C2 is worded, the transform is applied: the mesh of the
  example scene starts with rotation \<open>(0, 0, 0)\<close> and scale \<open>(1, 1, 1)\<close> and ends
  with x rotation \<open>3.14159\<close> and scale \<open>0.01\<close>.
\<close>

theorem all_retained_counterexample:
  "import_models all_flags \<and> import_lights all_flags \<and> import_cameras all_flags \<and>
   import_splines all_flags \<and> import_animations all_flags \<and> import_materials all_flags \<and>
   import_armatures all_flags \<and> apply_rotation all_flags \<and> apply_scale all_flags \<and>
   map_option rotation_euler (objects scene0 ''meshA'') = Some (0, 0, 0) \<and>
   map_option scale (objects scene0 ''meshA'') = Some (1, 1, 1) \<and>
   map_option rotation_euler (objects (snd (filter_pipeline all_flags batch0 scene0)) ''meshA'')
     = Some (314159 / 100000, 0, 0) \<and>
   map_option scale (objects (snd (filter_pipeline all_flags batch0 scene0)) ''meshA'')
     = Some (1 / 100, 1 / 100, 1 / 100)"
  by (simp add: filter_pipeline_objects batch0_def scene0_def meshA_def all_flags_def
                stripped_def desel_def corrected_def rotation_180_def scale_001_def)





text \<open>
  \<^bold>\<open>C5.\<close> For a batch without repetition (a Python set), the calls the pipeline adds
  to the host split into those of the transform stage, \<open>pre\<close>, and those of the
  asset filtering, \<open>post\<close>:
  \<^item> \<open>pre\<close> contains no \<^verbatim>\<open>bpy.ops.object.delete()\<close>, and \<open>post\<close> writes no rotation and
    no scale: every corrective write comes before any deletion;
  \<^item> the corrective writes of \<open>pre\<close> are, when \<open>apply_rotation\<close> is set, one assignment
    of \<open>rotation_180\<close> (the source's \<^verbatim>\<open>3.14159  # 180 degrees\<close>) to the x rotation of
    each batch object in turn, followed, when \<open>apply_scale\<close> is set, by one assignment of
    \<open>(0.01, 0.01, 0.01)\<close> to the scale of each; so in the whole run each batch object
    is written exactly once per enabled flag and never otherwise;
  \<^item> after the transform stage every batch object is still in the scene and carries
    the corrective values;
  \<^item> every survivor carries the corrective values at the end, whatever was deleted.
\<close>

theorem corrective_transform_once:
  assumes "distinct batch"
  shows "\<exists>pre post.
           calls (transform_stage op batch s) = calls s @ pre \<and>
           calls (snd (filter_pipeline op batch s)) = calls s @ pre @ post \<and>
           Object_delete \<notin> set pre \<and>
           filter is_transform_call post = [] \<and>
           filter is_transform_call pre =
             (if apply_rotation op then map (\<lambda>n. Set_rotation_euler_x n rotation_180) batch
              else []) @
             (if apply_scale op then map (\<lambda>n. Set_scale n scale_001) batch else []) \<and>
           (\<forall>n \<in> set batch.
              count_list (pre @ post) (Set_rotation_euler_x n rotation_180) =
                (if apply_rotation op then 1 else 0) \<and>
              count_list (pre @ post) (Set_scale n scale_001) =
                (if apply_scale op then 1 else 0) \<and>
              (\<forall>ob. objects s n = Some ob \<longrightarrow>
                 objects (transform_stage op batch s) n =
                   Some (ob\<lparr>select := False,
                            rotation_euler :=
                              (if apply_rotation op then (rotation_180, snd (rotation_euler ob))
                               else rotation_euler ob),
                            scale := (if apply_scale op then scale_001 else scale ob)\<rparr>))) \<and>
           (\<forall>n \<in> set (survivors (filter_pipeline op batch s)).
              \<forall>ob. objects s n = Some ob \<longrightarrow>
                map_option rotation_euler (objects (snd (filter_pipeline op batch s)) n) =
                  Some (if apply_rotation op then (rotation_180, snd (rotation_euler ob))
                        else rotation_euler ob) \<and>
                map_option scale (objects (snd (filter_pipeline op batch s)) n) =
                  Some (if apply_scale op then scale_001 else scale ob))"
proof -
  define pre where
    "pre = [Select_all_DESELECT] @ select_calls batch
             @ (if apply_rotation op then map (\<lambda>n. Set_rotation_euler_x n rotation_180) batch
                else [])
             @ (if apply_scale op then map (\<lambda>n. Set_scale n scale_001) batch else [])
             @ [Select_all_DESELECT]"
  have c1: "calls (transform_stage op batch s) = calls s @ pre"
    unfolding pre_def by (rule calls_transform_stage)
  obtain post where
    c2: "calls (snd (filter_pipeline op batch s)) = calls (transform_stage op batch s) @ post"
    and q: "filter is_transform_call post = []"
    using quiet_asset_filtering [of "transform_stage op batch s" op batch]
    unfolding quiet_def filter_pipeline_def by blast
  have nd: "Object_delete \<notin> set pre"
    unfolding pre_def by auto
  have ft: "filter is_transform_call pre =
             (if apply_rotation op then map (\<lambda>n. Set_rotation_euler_x n rotation_180) batch
              else []) @
             (if apply_scale op then map (\<lambda>n. Set_scale n scale_001) batch else [])"
    unfolding pre_def by (simp add: is_transform_call_def)
  have post0: "count_list post c = 0" if "is_transform_call c" for c
  proof -
    have "c \<notin> set (filter is_transform_call post)" using q by simp
    then have "c \<notin> set post" using that by simp
    then show ?thesis by (simp add: count_list_0_iff)
  qed
  have cnt: "count_list (pre @ post) (Set_rotation_euler_x n rotation_180) =
               (if apply_rotation op then 1 else 0) \<and>
             count_list (pre @ post) (Set_scale n scale_001) =
               (if apply_scale op then 1 else 0)" if "n \<in> set batch" for n
    using count_distinct [OF assms that]
          post0 [of "Set_rotation_euler_x n rotation_180"] post0 [of "Set_scale n scale_001"]
    by (simp add: pre_def count_rot_map count_scale_map is_transform_call_def)
  have st: "objects (transform_stage op batch s) n =
              Some (ob\<lparr>select := False,
                       rotation_euler :=
                         (if apply_rotation op then (rotation_180, snd (rotation_euler ob))
                          else rotation_euler ob),
                       scale := (if apply_scale op then scale_001 else scale ob)\<rparr>)"
    if "n \<in> set batch" "objects s n = Some ob" for n ob
    using that by (simp add: transform_stage_objects desel_def corrected_def)
  have sv: "map_option rotation_euler (objects (snd (filter_pipeline op batch s)) n) =
              Some (if apply_rotation op then (rotation_180, snd (rotation_euler ob))
                    else rotation_euler ob) \<and>
            map_option scale (objects (snd (filter_pipeline op batch s)) n) =
              Some (if apply_scale op then scale_001 else scale ob)"
    if "n \<in> set (survivors (filter_pipeline op batch s))" "objects s n = Some ob" for n ob
    using that
    by (auto simp: filter_pipeline_survivors_set filter_pipeline_objects stripped_def desel_def
                   corrected_def)
  show ?thesis
    apply (rule exI [of _ pre])
    apply (rule exI [of _ post])
    using c1 c2 nd q ft cnt st sv by simp
qed

text \<open>
  The calls of the transform stage on the example scene, and the single rotation write
  to the camera in the whole run.
\<close>

theorem corrective_transform_once_witness:
  "distinct batch0 \<and>
   calls (transform_stage scenario_flags batch0 scene0) =
     [Select_all_DESELECT,
      Select_set ''meshA'' True, Set_active ''meshA'', Select_set ''lightB'' True,
      Select_set ''cameraC'' True, Select_set ''rigD'' True,
      Set_rotation_euler_x ''meshA'' rotation_180, Set_rotation_euler_x ''lightB'' rotation_180,
      Set_rotation_euler_x ''cameraC'' rotation_180, Set_rotation_euler_x ''rigD'' rotation_180,
      Select_all_DESELECT] \<and>
   count_list (calls (snd (filter_pipeline scenario_flags batch0 scene0)))
     (Set_rotation_euler_x ''cameraC'' rotation_180) = 1"
proof -
  have d: "distinct batch0" by (simp add: batch0_def)
  obtain pre post where
    a: "calls (transform_stage scenario_flags batch0 scene0) = calls scene0 @ pre"
    and b: "calls (snd (filter_pipeline scenario_flags batch0 scene0)) = calls scene0 @ pre @ post"
    and c: "\<forall>n \<in> set batch0.
              count_list (pre @ post) (Set_rotation_euler_x n rotation_180) =
                (if apply_rotation scenario_flags then 1 else 0) \<and>
              count_list (pre @ post) (Set_scale n scale_001) =
                (if apply_scale scenario_flags then 1 else 0) \<and>
              (\<forall>ob. objects scene0 n = Some ob \<longrightarrow>
                 objects (transform_stage scenario_flags batch0 scene0) n =
                   Some (ob\<lparr>select := False,
                            rotation_euler :=
                              (if apply_rotation scenario_flags
                               then (rotation_180, snd (rotation_euler ob))
                               else rotation_euler ob),
                            scale := (if apply_scale scenario_flags then scale_001
                                      else scale ob)\<rparr>))"
    using corrective_transform_once [OF d, of scenario_flags scene0] by blast
  have "count_list (pre @ post) (Set_rotation_euler_x ''cameraC'' rotation_180) = 1"
    using c by (simp add: batch0_def scenario_flags_def)
  then have "count_list (calls (snd (filter_pipeline scenario_flags batch0 scene0)))
               (Set_rotation_euler_x ''cameraC'' rotation_180) = 1"
    using b by (simp add: scene0_def)
  moreover have "calls (transform_stage scenario_flags batch0 scene0) =
     [Select_all_DESELECT,
      Select_set ''meshA'' True, Set_active ''meshA'', Select_set ''lightB'' True,
      Select_set ''cameraC'' True, Select_set ''rigD'' True,
      Set_rotation_euler_x ''meshA'' rotation_180, Set_rotation_euler_x ''lightB'' rotation_180,
      Set_rotation_euler_x ''cameraC'' rotation_180, Set_rotation_euler_x ''rigD'' rotation_180,
      Select_all_DESELECT]"
    by (simp add: calls_transform_stage select_calls_def batch0_def scene0_def
                  scenario_flags_def)
  ultimately show ?thesis using d by simp
qed



text \<open>
  \<^bold>\<open>C7\<close>, as the code has it. When the scene diff after the FBX import is empty,
  the rest of \<^verbatim>\<open>execute\<close> skips the pipeline, deselects everything, removes the
  intermediate FBX file, reports \<^verbatim>\<open>INFO\<close> \<^verbatim>\<open>Successfully imported 3ds Max file\<close> and
  returns \<^verbatim>\<open>FINISHED\<close>. The only records it adds to the log are two \<^verbatim>\<open>INFO\<close> lines;
  it adds no warning and no error.
\<close>

theorem empty_batch_is_success:
  assumes "scene_diff existing_object_names s = []"
  shows "fst (finish_import op existing_object_names s) = FINISHED \<and>
         reports (snd (finish_import op existing_object_names s)) =
           reports s @ [(INFO, Successfully_imported)] \<and>
         logger (snd (finish_import op existing_object_names s)) =
           logger s @ [(INFO, Fbx_imported), (INFO, Identified_imported 0)] \<and>
         files (snd (finish_import op existing_object_names s)) = files s - {Import_fbx} \<and>
         objects (snd (finish_import op existing_object_names s)) n =
           map_option (\<lambda>ob. ob\<lparr>select := False\<rparr>) (objects s n)"
  by (simp add: finish_import_empty [OF assms] os_remove_def report_def logger_info_def
                select_all_DESELECT_def called_def)

text \<open>The example scene, with all of its objects already present before the import.\<close>

theorem empty_batch_is_success_witness:
  "scene_diff [''meshA'', ''lightB'', ''cameraC'', ''rigD''] scene0 = [] \<and>
   fst (finish_import scenario_flags [''meshA'', ''lightB'', ''cameraC'', ''rigD''] scene0)
     = FINISHED \<and>
   reports (snd (finish_import scenario_flags [''meshA'', ''lightB'', ''cameraC'', ''rigD'']
                   scene0)) = [(INFO, Successfully_imported)] \<and>
   objects (snd (finish_import scenario_flags [''meshA'', ''lightB'', ''cameraC'', ''rigD'']
                   scene0)) ''lightB'' = Some (lightB\<lparr>select := False\<rparr>)"
proof -
  have d: "scene_diff [''meshA'', ''lightB'', ''cameraC'', ''rigD''] scene0 = []"
    by (simp add: scene_diff_def scene_objects_def in_scene_def scene0_def)
  show ?thesis
    using empty_batch_is_success [OF d, of scenario_flags "''lightB''"] d
    by (simp add: scene0_def)
qed

text \<open>
  A whole import that brings in nothing: the operator finishes with a single
  \<^verbatim>\<open>INFO\<close> report of success, and nothing of level \<^verbatim>\<open>WARNING\<close> is reported or logged.
\<close>

theorem empty_batch_counterexample:
  "scene_diff (scene_objects scene0) scene0 = [] \<and>
   fst (execute_import all_flags env_nothing_imported scene0) = FINISHED \<and>
   reports (snd (execute_import all_flags env_nothing_imported scene0)) =
     [(INFO, Successfully_imported)] \<and>
   logger (snd (execute_import all_flags env_nothing_imported scene0)) =
     [(INFO, Initiating_import), (INFO, Executing_conversion_script),
      (INFO, Importing_generated_fbx), (INFO, Fbx_imported), (INFO, Identified_imported 0)]"
  by (simp add: execute_import_nothing_imported write_file_def os_remove_def report_def
                logger_info_def select_all_DESELECT_def called_def scene0_def)

text \<open>
  \<^bold>\<open>C8.\<close> The import does not remove its temporary files on every exit path. When the
  FBX importer raises, \<^verbatim>\<open>execute\<close> returns \<^verbatim>\<open>CANCELLED\<close> and both the generated script
  and the intermediate FBX file are still in the cache directory; when the import
  succeeds the FBX file is removed and the generated script is not (it outlives every
  import that writes it: \<open>import_script_remains\<close>). The export keeps its files in a
  \<^verbatim>\<open>TemporaryDirectory\<close> and leaves none: \<open>export_max_removes_temp_files\<close>.
\<close>

theorem import_leaves_temp_files:
  "fst (execute_import all_flags env_importer_raises scene0) = CANCELLED \<and>
   files (snd (execute_import all_flags env_importer_raises scene0)) =
     {Import_script, Import_fbx} \<and>
   fst (execute_import all_flags env_nothing_imported scene0) = FINISHED \<and>
   files (snd (execute_import all_flags env_nothing_imported scene0)) = {Import_script}"
  by (auto simp: execute_import_nothing_imported execute_import_importer_raises write_file_def
                 os_remove_def report_def logger_info_def logger_error_def
                 select_all_DESELECT_def called_def scene0_def)

text \<open>
  \<^bold>\<open>C9\<close>, as the code has it. When the pipeline completes no object is selected,
  survivors included: the batch is selected before the transform, deselected after it
  (\<^verbatim>\<open>bpy.ops.object.select_all(action='DESELECT')\<close>), and every filter leaves the scene
  deselected. The same holds when \<^verbatim>\<open>execute\<close> has finished a successful import.
\<close>

theorem nothing_selected:
  "selected_objects (snd (filter_pipeline op batch s)) = [] \<and>
   selected_objects (snd (finish_import op existing_object_names s)) = []"
proof -
  have a: "selected_objects (snd (filter_pipeline op batch s)) = []"
    by (rule selected_objects_empty) (rule filter_pipeline_not_selected)
  have b: "selected_objects (snd (finish_import op existing_object_names s)) = []"
    by (rule selected_objects_empty) (simp add: finish_import_def Let_def)
  show ?thesis using a b by simp
qed

text \<open>
  With every flag set the whole example batch survives, the mesh is in the scene, and
  it is not selected: the host's selection is empty.
\<close>

theorem nothing_selected_counterexample:
  "survivors (filter_pipeline all_flags batch0 scene0) = batch0 \<and>
   in_scene (snd (filter_pipeline all_flags batch0 scene0)) ''meshA'' \<and>
   \<not> is_selected (snd (filter_pipeline all_flags batch0 scene0)) ''meshA'' \<and>
   selected_objects (snd (filter_pipeline all_flags batch0 scene0)) = []"
proof -
  have "set (removed (filter_pipeline all_flags batch0 scene0)) = {}"
    by (auto simp: filter_pipeline_removed batch0_def scene0_def all_flags_def meshA_def
                   lightB_def cameraC_def rigD_def)
  then have "survivors (filter_pipeline all_flags batch0 scene0) = batch0"
    by (simp add: filter_pipeline_survivors set_minus_def)
  moreover have "in_scene (snd (filter_pipeline all_flags batch0 scene0)) ''meshA''"
    by (simp add: in_scene_def filter_pipeline_objects batch0_def scene0_def all_flags_def
                  meshA_def)
  ultimately show ?thesis
    by (simp add: filter_pipeline_not_selected selected_objects_empty)
qed

text \<open>
  \<^bold>\<open>C10\<close>, as the code has it. An armature among the source objects of an export is
  selected for the FBX export exactly when it is in the current view layer and the
  models flag or the animations flag is set. An armature outside the view layer is
  skipped by the loop's \<^verbatim>\<open>continue\<close> and stays deselected.
\<close>

theorem armature_export_selection:
  assumes "n \<in> set (source_objects op (selected_objects s) (select_all_DESELECT s))"
    and "objects s n = Some ob" and "otype ob = ARMATURE"
  shows "is_selected (snd (export_selection op s)) n =
           (in_view_layer ob \<and> (export_models op \<or> export_animations op))"
  using assms
  by (simp add: is_selected_def export_selection_objects should_select_def)

text \<open>
  Animations only: the rig of the example scene, which is in the view layer, is
  selected.
\<close>

theorem armature_export_selection_witness:
  "''rigD'' \<in> set (source_objects export_animations_only (selected_objects scene0)
                    (select_all_DESELECT scene0)) \<and>
   objects scene0 ''rigD'' = Some rigD \<and> otype rigD = ARMATURE \<and> in_view_layer rigD \<and>
   \<not> export_models export_animations_only \<and> export_animations export_animations_only \<and>
   is_selected (snd (export_selection export_animations_only scene0)) ''rigD''"
proof -
  have src: "''rigD'' \<in> set (source_objects export_animations_only (selected_objects scene0)
                    (select_all_DESELECT scene0))"
    by (simp add: source_objects_def scene_objects_def in_scene_def export_animations_only_def
                  scene0_def prim_defs)
  have ob: "objects scene0 ''rigD'' = Some rigD"
    by (simp add: scene0_def)
  have ty: "otype rigD = ARMATURE"
    by (simp add: rigD_def)
  show ?thesis
    using armature_export_selection [OF src ob ty] src ob ty
    by (simp add: rigD_def export_animations_only_def)
qed

text \<open>
  Every export filter set, and an armature of the scene that is not in the view layer:
  it is among the source objects and it is not selected.
\<close>

theorem armature_export_counterexample:
  "''rigD'' \<in> set (source_objects export_all (selected_objects scene_hidden_rig)
                    (select_all_DESELECT scene_hidden_rig)) \<and>
   map_option otype (objects scene_hidden_rig ''rigD'') = Some ARMATURE \<and>
   export_models export_all \<and> export_animations export_all \<and>
   \<not> is_selected (snd (export_selection export_all scene_hidden_rig)) ''rigD''"
proof -
  have src: "source_objects export_all (selected_objects scene_hidden_rig)
               (select_all_DESELECT scene_hidden_rig) = [''meshA'', ''rigD'']"
    by (simp add: source_objects_def scene_objects_def in_scene_def export_all_def
                  scene_hidden_rig_def prim_defs)
  have "\<not> is_selected (snd (export_selection export_all scene_hidden_rig)) ''rigD''"
    by (simp add: is_selected_def export_selection_objects src scene_hidden_rig_def)
  then show ?thesis
    using src by (simp add: scene_hidden_rig_def rigD_def export_all_def)
qed

end
